theory Spec2Isabelle
  imports Complex_Main
begin

section \<open>Double-precision values\<close>

text \<open>
  A C++ \<^verbatim>\<open>double\<close> is modelled as a real number or one of the three IEEE 754 special
  values.  The special values are kept because the control flow of the solver depends on
  them: a comparison with a NaN is false, and a division by zero yields an infinity or a
  NaN instead of trapping.  Arithmetic on finite values is exact (rounding and overflow
  are not modelled) and the two zeros are not distinguished: a zero divisor is \<open>+0\<close>.
\<close>

datatype dbl = Fin real | PosInf | NegInf | NaN

fun dneg :: "dbl \<Rightarrow> dbl" where
  "dneg (Fin a) = Fin (- a)"
| "dneg PosInf = NegInf"
| "dneg NegInf = PosInf"
| "dneg NaN = NaN"

fun dadd :: "dbl \<Rightarrow> dbl \<Rightarrow> dbl" where
  "dadd (Fin a) (Fin b) = Fin (a + b)"
| "dadd NaN _ = NaN"
| "dadd _ NaN = NaN"
| "dadd PosInf NegInf = NaN"
| "dadd NegInf PosInf = NaN"
| "dadd PosInf _ = PosInf"
| "dadd _ PosInf = PosInf"
| "dadd NegInf _ = NegInf"
| "dadd _ NegInf = NegInf"

definition dsub :: "dbl \<Rightarrow> dbl \<Rightarrow> dbl" where
  "dsub a b = dadd a (dneg b)"

fun dmul :: "dbl \<Rightarrow> dbl \<Rightarrow> dbl" where
  "dmul (Fin a) (Fin b) = Fin (a * b)"
| "dmul NaN _ = NaN"
| "dmul _ NaN = NaN"
| "dmul (Fin a) PosInf = (if a = 0 then NaN else if 0 < a then PosInf else NegInf)"
| "dmul (Fin a) NegInf = (if a = 0 then NaN else if 0 < a then NegInf else PosInf)"
| "dmul PosInf (Fin b) = (if b = 0 then NaN else if 0 < b then PosInf else NegInf)"
| "dmul NegInf (Fin b) = (if b = 0 then NaN else if 0 < b then NegInf else PosInf)"
| "dmul PosInf PosInf = PosInf"
| "dmul PosInf NegInf = NegInf"
| "dmul NegInf PosInf = NegInf"
| "dmul NegInf NegInf = PosInf"

fun ddiv :: "dbl \<Rightarrow> dbl \<Rightarrow> dbl" where
  "ddiv (Fin a) (Fin b) =
     (if b = 0 then (if a = 0 then NaN else if 0 < a then PosInf else NegInf)
      else Fin (a / b))"
| "ddiv NaN _ = NaN"
| "ddiv _ NaN = NaN"
| "ddiv (Fin a) PosInf = Fin 0"
| "ddiv (Fin a) NegInf = Fin 0"
| "ddiv PosInf (Fin b) = (if 0 \<le> b then PosInf else NegInf)"
| "ddiv NegInf (Fin b) = (if 0 \<le> b then NegInf else PosInf)"
| "ddiv PosInf PosInf = NaN"
| "ddiv PosInf NegInf = NaN"
| "ddiv NegInf PosInf = NaN"
| "ddiv NegInf NegInf = NaN"

text \<open>The comparison \<^verbatim>\<open>a < b\<close>.\<close>

fun dless :: "dbl \<Rightarrow> dbl \<Rightarrow> bool" where
  "dless (Fin a) (Fin b) = (a < b)"
| "dless NaN _ = False"
| "dless _ NaN = False"
| "dless PosInf _ = False"
| "dless _ NegInf = False"
| "dless NegInf _ = True"
| "dless _ PosInf = True"

text \<open>The comparison \<^verbatim>\<open>a >= b\<close>.\<close>

fun dge :: "dbl \<Rightarrow> dbl \<Rightarrow> bool" where
  "dge (Fin a) (Fin b) = (b \<le> a)"
| "dge NaN _ = False"
| "dge _ NaN = False"
| "dge PosInf _ = True"
| "dge _ NegInf = True"
| "dge NegInf _ = False"
| "dge _ PosInf = False"

fun dfabs :: "dbl \<Rightarrow> dbl" where
  "dfabs (Fin a) = Fin \<bar>a\<bar>"
| "dfabs PosInf = PosInf"
| "dfabs NegInf = PosInf"
| "dfabs NaN = NaN"

text \<open>\<^verbatim>\<open>std::max<double>(a, b)\<close> is \<^verbatim>\<open>(a < b) ? b : a\<close>.\<close>

definition dmax :: "dbl \<Rightarrow> dbl \<Rightarrow> dbl" where
  "dmax a b = (if dless a b then b else a)"

text \<open>\<^verbatim>\<open>std::numeric_limits<double>::max()\<close>.\<close>

definition DBL_MAX :: dbl where
  "DBL_MAX = Fin (2 ^ 1024 - 2 ^ 971)"

section \<open>Messages and Eigen transforms\<close>

text \<open>\<^verbatim>\<open>geometry_msgs::msg::Vector3\<close> and \<^verbatim>\<open>geometry_msgs::msg::Wrench\<close>; a
  default-constructed message has every component zero.\<close>

datatype Vector3 = Vector3 (vec_x: dbl) (vec_y: dbl) (vec_z: dbl)

record Wrench =
  force :: Vector3
  torque :: Vector3

definition Vector3_zero :: Vector3 where
  "Vector3_zero = Vector3 (Fin 0) (Fin 0) (Fin 0)"

definition Wrench_zero :: Wrench where
  "Wrench_zero = \<lparr>force = Vector3_zero, torque = Vector3_zero\<rparr>"

text \<open>\<^verbatim>\<open>Eigen::Vector3d\<close>, \<^verbatim>\<open>Eigen::Matrix3d\<close> (by rows) and \<^verbatim>\<open>Eigen::Isometry3d\<close> (a
  rotation and a translation), with the library's product, inverse of an isometry and
  composition.\<close>

type_synonym Vector3d = "dbl \<times> dbl \<times> dbl"
type_synonym Matrix3d = "Vector3d \<times> Vector3d \<times> Vector3d"

datatype Isometry3d = Isometry3d (linear3d: Matrix3d) (translation3d: Vector3d)

fun dot3 :: "Vector3d \<Rightarrow> Vector3d \<Rightarrow> dbl" where
  "dot3 (a, b, c) (p, q, r) = dadd (dadd (dmul a p) (dmul b q)) (dmul c r)"

fun mat_vec :: "Matrix3d \<Rightarrow> Vector3d \<Rightarrow> Vector3d" where
  "mat_vec (r0, r1, r2) p = (dot3 r0 p, dot3 r1 p, dot3 r2 p)"

fun transpose3 :: "Matrix3d \<Rightarrow> Matrix3d" where
  "transpose3 ((a, b, c), (d, e, f), (g, h, i)) = ((a, d, g), (b, e, h), (c, f, i))"

fun mat_mat :: "Matrix3d \<Rightarrow> Matrix3d \<Rightarrow> Matrix3d" where
  "mat_mat (r0, r1, r2) m =
     (case transpose3 m of (c0, c1, c2) \<Rightarrow>
        ((dot3 r0 c0, dot3 r0 c1, dot3 r0 c2),
         (dot3 r1 c0, dot3 r1 c1, dot3 r1 c2),
         (dot3 r2 c0, dot3 r2 c1, dot3 r2 c2)))"

fun vec_add :: "Vector3d \<Rightarrow> Vector3d \<Rightarrow> Vector3d" where
  "vec_add (a, b, c) (p, q, r) = (dadd a p, dadd b q, dadd c r)"

fun vec_neg :: "Vector3d \<Rightarrow> Vector3d" where
  "vec_neg (a, b, c) = (dneg a, dneg b, dneg c)"

definition iso_inverse :: "Isometry3d \<Rightarrow> Isometry3d" where
  "iso_inverse t =
     Isometry3d (transpose3 (linear3d t))
       (vec_neg (mat_vec (transpose3 (linear3d t)) (translation3d t)))"

definition iso_mult :: "Isometry3d \<Rightarrow> Isometry3d \<Rightarrow> Isometry3d" where
  "iso_mult a b =
     Isometry3d (mat_mat (linear3d a) (linear3d b))
       (vec_add (mat_vec (linear3d a) (translation3d b)) (translation3d a))"

text \<open>\<^verbatim>\<open>transformVector\<close>: only \<^verbatim>\<open>transform.linear()\<close> is applied to the vector.\<close>

definition transformVector :: "Isometry3d \<Rightarrow> Vector3 \<Rightarrow> Vector3" where
  "transformVector transform vector =
     (case mat_vec (linear3d transform) (vec_x vector, vec_y vector, vec_z vector) of
        (px, py, pz) \<Rightarrow> Vector3 px py pz)"

section \<open>The robot model and the KDL chain\<close>

text \<open>
  The robot model, the URDF, the KDL tree and chain, the inverse-dynamics engine and the
  robot state are collaborators of the solver.  What the solver reads of them is data
  here; what it calls is a function it is given.  The pointers to the robot model and to
  its URDF are not null.  The engine is a function of the arguments of \<^verbatim>\<open>CartToJnt\<close>:
  whatever storage it keeps between two calls is not part of the model.
\<close>

record JointLimits =
  effort :: dbl

record urdf_Joint =
  limits :: "JointLimits option"

record ModelInterface =
  getJoint :: "string \<Rightarrow> urdf_Joint option"

record JointModel =
  getParentLinkModel :: "string option"

record JointModelGroup =
  isChain :: bool
  getMimicJointModels :: "string list"
  getJointRoots :: "JointModel list"
  getLinkModelNames :: "string list"
  getJointModelNames :: "string list"

record RobotModel =
  getJointModelGroup :: "string \<Rightarrow> JointModelGroup option"
  getURDF :: ModelInterface

text \<open>A KDL chain is a list of segments, each with one joint, which may be fixed;
  \<^verbatim>\<open>getNrOfJoints\<close> counts the joints that are not fixed.\<close>

record Segment =
  segment_name :: string
  joint_fixed :: bool

type_synonym Chain = "Segment list"

definition getNrOfSegments :: "Chain \<Rightarrow> nat" where
  "getNrOfSegments c = length c"

definition getNrOfJoints :: "Chain \<Rightarrow> nat" where
  "getNrOfJoints c = length (filter (\<lambda>sg. \<not> joint_fixed sg) c)"

text \<open>\<^verbatim>\<open>tree.getChain(base, tip, chain)\<close>: the success flag and the content of the output
  parameter.\<close>

type_synonym Tree = "string \<Rightarrow> string \<Rightarrow> bool \<times> Chain"

type_synonym JntArray = "dbl list"
type_synonym KDL_Wrench = "Vector3d \<times> Vector3d"

text \<open>\<^verbatim>\<open>ChainIdSolver_RNE::CartToJnt(q, q_dot, q_dotdot, f_ext, torques)\<close>: the status and
  the content of the output array \<^verbatim>\<open>torques(i)\<close>, by index.\<close>

type_synonym ChainIdSolver_RNE =
  "JntArray \<Rightarrow> JntArray \<Rightarrow> JntArray \<Rightarrow> KDL_Wrench list \<Rightarrow> int \<times> (nat \<Rightarrow> dbl)"

text \<open>\<^verbatim>\<open>KDL::Vector::Norm\<close> is the Euclidean norm.\<close>

fun Norm :: "Vector3d \<Rightarrow> dbl" where
  "Norm (Fin a, Fin b, Fin c) = Fin (sqrt (a * a + b * b + c * c))"
| "Norm (a, b, c) = (if a = NaN \<or> b = NaN \<or> c = NaN then NaN else PosInf)"

text \<open>The functions of the collaborators, over a robot state of type \<open>'st\<close>.\<close>

record 'st collaborators =
  treeFromUrdfModel :: "ModelInterface \<Rightarrow> Tree option"
  make_ChainIdSolver_RNE :: "Chain \<Rightarrow> Vector3d \<Rightarrow> ChainIdSolver_RNE"
  make_RobotState :: "RobotModel \<Rightarrow> 'st"
  setToDefaultValues :: "'st \<Rightarrow> 'st"
  setJointGroupPositions :: "'st \<Rightarrow> JointModelGroup \<Rightarrow> dbl list \<Rightarrow> 'st"
  getFrameTransform :: "'st \<Rightarrow> string \<Rightarrow> Isometry3d"

section \<open>The solver\<close>

text \<open>The members of \<^verbatim>\<open>DynamicsSolver\<close>, named as in the source without the underscore
  at the end (\<^verbatim>\<open>state_\<close> is \<open>state\<close>).  A pointer is an option, \<open>None\<close> when it is null;
  \<open>state\<close> holds the robot state the pointer \<^verbatim>\<open>state_\<close> points to.\<close>

record 'st dynamics_solver =
  robot_model :: "RobotModel option"
  joint_model_group :: "JointModelGroup option"
  state :: "'st option"
  chain_id_solver :: "ChainIdSolver_RNE option"
  kdl_chain :: Chain
  base_name :: string
  tip_name :: string
  num_joints :: nat
  num_segments :: nat
  max_torques :: "dbl list"
  gravity :: dbl

text \<open>
  A query returns \<^verbatim>\<open>true\<close> (\<open>None\<close> here) or \<^verbatim>\<open>false\<close>, with the check that failed as
  the message it logs says.  \<open>Undefined\<close> is a run that reads a vector out of range or
  dereferences a null pointer.  Besides the output parameters a query returns the solver
  after it (the robot state \<^verbatim>\<open>*state_\<close> is mutable) and the calls it made to the engine.
\<close>

datatype failure =
  NotConstructed | AnglesSize | VelocitiesSize | AccelerationsSize | WrenchesSize
  | TorquesSize | EngineFailed

datatype 'a outcome = Undefined | Returns 'a

type_synonym engine_call = "JntArray \<times> JntArray \<times> JntArray \<times> KDL_Wrench list"

subsection \<open>\<^verbatim>\<open>getTorques\<close>\<close>

definition to_kdl_wrench :: "Wrench \<Rightarrow> KDL_Wrench" where
  "to_kdl_wrench w =
     ((vec_x (force w), vec_y (force w), vec_z (force w)),
      (vec_x (torque w), vec_y (torque w), vec_z (torque w)))"

definition kdl_zero :: KDL_Wrench where
  "kdl_zero = ((Fin 0, Fin 0, Fin 0), (Fin 0, Fin 0, Fin 0))"

text \<open>The two loops that fill the engine's arrays and the loop that copies its result.\<close>

definition fill_jnt ::
  "nat \<Rightarrow> dbl list \<Rightarrow> dbl list \<Rightarrow> dbl list \<Rightarrow> JntArray \<times> JntArray \<times> JntArray" where
  "fill_jnt n joint_angles joint_velocities joint_accelerations =
     fold (\<lambda>i (ka, kv, kc).
             (ka[i := joint_angles ! i], kv[i := joint_velocities ! i],
              kc[i := joint_accelerations ! i]))
       [0..<n] (replicate n (Fin 0), replicate n (Fin 0), replicate n (Fin 0))"

definition fill_wrenches :: "nat \<Rightarrow> Wrench list \<Rightarrow> KDL_Wrench list" where
  "fill_wrenches m wrenches =
     fold (\<lambda>i kw. kw[i := to_kdl_wrench (wrenches ! i)]) [0..<m] (replicate m kdl_zero)"

definition copy_torques :: "nat \<Rightarrow> (nat \<Rightarrow> dbl) \<Rightarrow> dbl list \<Rightarrow> dbl list" where
  "copy_torques n kdl_torques torques =
     fold (\<lambda>i t. t[i := kdl_torques i]) [0..<n] torques"

definition getTorques ::
  "'st dynamics_solver \<Rightarrow> dbl list \<Rightarrow> dbl list \<Rightarrow> dbl list \<Rightarrow> Wrench list \<Rightarrow> dbl list \<Rightarrow>
   (failure option \<times> dbl list \<times> 'st dynamics_solver \<times> engine_call list) outcome" where
  "getTorques s joint_angles joint_velocities joint_accelerations wrenches torques =
     (if joint_model_group s = None then Returns (Some NotConstructed, torques, s, [])
      else if length joint_angles \<noteq> num_joints s then Returns (Some AnglesSize, torques, s, [])
      else if length joint_velocities \<noteq> num_joints s
        then Returns (Some VelocitiesSize, torques, s, [])
      else if length joint_accelerations \<noteq> num_joints s
        then Returns (Some AccelerationsSize, torques, s, [])
      else if length wrenches \<noteq> num_segments s then Returns (Some WrenchesSize, torques, s, [])
      else if length torques \<noteq> num_joints s then Returns (Some TorquesSize, torques, s, [])
      else
        (case chain_id_solver s of
           None \<Rightarrow> Undefined
         | Some CartToJnt \<Rightarrow>
             (case fill_jnt (num_joints s) joint_angles joint_velocities joint_accelerations of
                (kdl_angles, kdl_velocities, kdl_accelerations) \<Rightarrow>
                  (let kdl_wrenches = fill_wrenches (num_segments s) wrenches;
                       call = (kdl_angles, kdl_velocities, kdl_accelerations, kdl_wrenches)
                   in case CartToJnt kdl_angles kdl_velocities kdl_accelerations kdl_wrenches of
                        (status, kdl_torques) \<Rightarrow>
                          if status < 0 then Returns (Some EngineFailed, torques, s, [call])
                          else Returns
                                 (None, copy_torques (num_joints s) kdl_torques torques, s,
                                  [call])))))"

subsection \<open>\<^verbatim>\<open>getMaxPayload\<close>\<close>

text \<open>The loop over the joints that looks for a joint saturated by gravity alone;
  \<^verbatim>\<open>max_torques_[i]\<close> is read without a check of the index.\<close>

fun first_saturated :: "dbl list \<Rightarrow> dbl list \<Rightarrow> nat list \<Rightarrow> nat option outcome" where
  "first_saturated zero_torques limits_v [] = Returns None"
| "first_saturated zero_torques limits_v (i # js) =
     (if length limits_v \<le> i \<or> length zero_torques \<le> i then Undefined
      else if dge (dfabs (zero_torques ! i)) (limits_v ! i) then Returns (Some i)
      else first_saturated zero_torques limits_v js)"

text \<open>The part shared by \<^verbatim>\<open>getMaxPayload\<close> and \<^verbatim>\<open>getPayloadTorques\<close>: the robot state is
  set to the angles, the transform \<^verbatim>\<open>tip_frame.inverse() * base_frame\<close> is read from it,
  and the wrench of the last segment gets the force \<open>(0, 0, fz)\<close>, rotated.\<close>

definition tip_force ::
  "'st collaborators \<Rightarrow> 'st dynamics_solver \<Rightarrow> dbl list \<Rightarrow> dbl \<Rightarrow> Wrench list \<Rightarrow>
   (Wrench list \<times> 'st dynamics_solver) outcome" where
  "tip_force ext s joint_angles fz wrenches =
     (case (state s, joint_model_group s) of
        (Some st, Some g) \<Rightarrow>
          (let st = setJointGroupPositions ext st g joint_angles;
               base_frame = getFrameTransform ext st (base_name s);
               tip_frame = getFrameTransform ext st (tip_name s);
               transform = iso_mult (iso_inverse tip_frame) base_frame
           in if wrenches = [] then Undefined
              else
                (let w = last wrenches;
                     w = w\<lparr>force := Vector3 (vec_x (force w)) (vec_y (force w)) fz\<rparr>;
                     w = w\<lparr>force := transformVector transform (force w)\<rparr>;
                     w = w\<lparr>torque := transformVector transform (torque w)\<rparr>
                 in Returns (butlast wrenches @ [w], s\<lparr>state := Some st\<rparr>)))
      | _ \<Rightarrow> Undefined)"

text \<open>The capacity of joint \<open>i\<close> and the loop that takes the minimum.  The loop runs
  after the search for a saturated joint has read \<^verbatim>\<open>max_torques_[i]\<close> and \<^verbatim>\<open>zero_torques[i]\<close>
  for every \<open>i\<close> below \<^verbatim>\<open>num_joints_\<close>, so the indices are in range here.\<close>

definition payload_joint :: "dbl list \<Rightarrow> dbl list \<Rightarrow> dbl list \<Rightarrow> nat \<Rightarrow> dbl" where
  "payload_joint limits_v zero_torques torques i =
     dmax (ddiv (dsub (limits_v ! i) (zero_torques ! i)) (dsub (torques ! i) (zero_torques ! i)))
          (ddiv (dsub (dneg (limits_v ! i)) (zero_torques ! i))
                (dsub (torques ! i) (zero_torques ! i)))"

definition min_payload_loop ::
  "dbl list \<Rightarrow> dbl list \<Rightarrow> dbl list \<Rightarrow> nat \<Rightarrow> nat \<Rightarrow> dbl \<times> nat" where
  "min_payload_loop limits_v zero_torques torques n joint_saturated =
     fold (\<lambda>i (min_payload, joint_saturated).
             if dless (payload_joint limits_v zero_torques torques i) min_payload
             then (payload_joint limits_v zero_torques torques i, i)
             else (min_payload, joint_saturated))
       [0..<n] (DBL_MAX, joint_saturated)"

definition getMaxPayload ::
  "'st collaborators \<Rightarrow> 'st dynamics_solver \<Rightarrow> dbl list \<Rightarrow> dbl \<Rightarrow> nat \<Rightarrow>
   (failure option \<times> dbl \<times> nat \<times> 'st dynamics_solver \<times> engine_call list) outcome" where
  "getMaxPayload ext s joint_angles payload joint_saturated =
     (if joint_model_group s = None
        then Returns (Some NotConstructed, payload, joint_saturated, s, [])
      else if length joint_angles \<noteq> num_joints s
        then Returns (Some AnglesSize, payload, joint_saturated, s, [])
      else
        (let joint_velocities = replicate (num_joints s) (Fin 0);
             joint_accelerations = replicate (num_joints s) (Fin 0);
             torques = replicate (num_joints s) (Fin 0);
             zero_torques = replicate (num_joints s) (Fin 0);
             wrenches = replicate (num_segments s) Wrench_zero
         in case getTorques s joint_angles joint_velocities joint_accelerations wrenches
                   zero_torques of
              Undefined \<Rightarrow> Undefined
            | Returns (Some e, zero_torques, s, calls) \<Rightarrow>
                Returns (Some e, payload, joint_saturated, s, calls)
            | Returns (None, zero_torques, s, calls) \<Rightarrow>
                (case first_saturated zero_torques (max_torques s) [0..<num_joints s] of
                   Undefined \<Rightarrow> Undefined
                 | Returns (Some i) \<Rightarrow> Returns (None, Fin 0, i, s, calls)
                 | Returns None \<Rightarrow>
                     (case tip_force ext s joint_angles (Fin 1) wrenches of
                        Undefined \<Rightarrow> Undefined
                      | Returns (wrenches, s) \<Rightarrow>
                          (case getTorques s joint_angles joint_velocities joint_accelerations
                                  wrenches torques of
                             Undefined \<Rightarrow> Undefined
                           | Returns (Some e, torques, s, calls2) \<Rightarrow>
                               Returns (Some e, payload, joint_saturated, s, calls @ calls2)
                           | Returns (None, torques, s, calls2) \<Rightarrow>
                               (case min_payload_loop (max_torques s) zero_torques torques
                                       (num_joints s) joint_saturated of
                                  (min_payload, joint_saturated) \<Rightarrow>
                                    Returns
                                      (None, ddiv min_payload (gravity s), joint_saturated, s,
                                       calls @ calls2)))))))"

subsection \<open>\<^verbatim>\<open>getPayloadTorques\<close> and \<^verbatim>\<open>getMaxTorques\<close>\<close>

definition getPayloadTorques ::
  "'st collaborators \<Rightarrow> 'st dynamics_solver \<Rightarrow> dbl list \<Rightarrow> dbl \<Rightarrow> dbl list \<Rightarrow>
   (failure option \<times> dbl list \<times> 'st dynamics_solver \<times> engine_call list) outcome" where
  "getPayloadTorques ext s joint_angles payload joint_torques =
     (if joint_model_group s = None then Returns (Some NotConstructed, joint_torques, s, [])
      else if length joint_angles \<noteq> num_joints s
        then Returns (Some AnglesSize, joint_torques, s, [])
      else if length joint_torques \<noteq> num_joints s
        then Returns (Some TorquesSize, joint_torques, s, [])
      else
        (let joint_velocities = replicate (num_joints s) (Fin 0);
             joint_accelerations = replicate (num_joints s) (Fin 0);
             wrenches = replicate (num_segments s) Wrench_zero
         in case tip_force ext s joint_angles (dmul payload (gravity s)) wrenches of
              Undefined \<Rightarrow> Undefined
            | Returns (wrenches, s) \<Rightarrow>
                getTorques s joint_angles joint_velocities joint_accelerations wrenches
                  joint_torques))"

definition getMaxTorques :: "'st dynamics_solver \<Rightarrow> dbl list" where
  "getMaxTorques s = max_torques s"

subsection \<open>The constructor\<close>

text \<open>
  The constructor has no member initialisers: before its body the members of class type
  are default-constructed (null pointers, empty vectors, chain and strings) and the
  scalar members \<^verbatim>\<open>num_joints_\<close>, \<^verbatim>\<open>num_segments_\<close> and \<^verbatim>\<open>gravity_\<close> hold whatever the
  storage holds, here the triple \<open>uninit\<close>.
\<close>

definition default_members :: "nat \<times> nat \<times> dbl \<Rightarrow> 'st dynamics_solver" where
  "default_members uninit =
     (case uninit of (nj, ns, g) \<Rightarrow>
        \<lparr>robot_model = None, joint_model_group = None, state = None, chain_id_solver = None,
         kdl_chain = [], base_name = [], tip_name = [], num_joints = nj, num_segments = ns,
         max_torques = [], gravity = g\<rparr>)"

definition push_max_torque :: "ModelInterface \<Rightarrow> string \<Rightarrow> dbl list \<Rightarrow> dbl list" where
  "push_max_torque urdf_model joint_model_name mt =
     (case getJoint urdf_model joint_model_name of
        None \<Rightarrow> mt @ [Fin 0]
      | Some ujoint \<Rightarrow>
          (case limits ujoint of
             None \<Rightarrow> mt @ [Fin 0]
           | Some l \<Rightarrow> mt @ [effort l]))"

definition DynamicsSolver ::
  "'st collaborators \<Rightarrow> nat \<times> nat \<times> dbl \<Rightarrow> RobotModel \<Rightarrow> string \<Rightarrow> Vector3 \<Rightarrow>
   'st dynamics_solver outcome" where
  "DynamicsSolver ext uninit model group_name gravity_vector =
     (let s = (default_members uninit)
                \<lparr>robot_model := Some model,
                 joint_model_group := getJointModelGroup model group_name\<rparr>
      in case joint_model_group s of
           None \<Rightarrow> Returns s
         | Some g \<Rightarrow>
             if \<not> isChain g then Returns (s\<lparr>joint_model_group := None\<rparr>)
             else if getMimicJointModels g \<noteq> [] then Returns (s\<lparr>joint_model_group := None\<rparr>)
             else
               (case getJointRoots g of
                  [] \<Rightarrow> Undefined
                | joint # _ \<Rightarrow>
                    (case getParentLinkModel joint of
                       None \<Rightarrow> Returns (s\<lparr>joint_model_group := None\<rparr>)
                     | Some parent \<Rightarrow>
                         if getLinkModelNames g = [] then Undefined
                         else
                           (let s = s\<lparr>base_name := parent,
                                      tip_name := last (getLinkModelNames g)\<rparr>;
                                urdf_model = getURDF model
                            in case treeFromUrdfModel ext urdf_model of
                                 None \<Rightarrow> Returns (s\<lparr>joint_model_group := None\<rparr>)
                               | Some tree \<Rightarrow>
                                   (case tree (base_name s) (tip_name s) of
                                      (ok, chain) \<Rightarrow>
                                        if \<not> ok
                                        then Returns
                                               (s\<lparr>kdl_chain := chain, joint_model_group := None\<rparr>)
                                        else
                                          (let s = s\<lparr>kdl_chain := chain,
                                                     num_joints := getNrOfJoints chain,
                                                     num_segments := getNrOfSegments chain,
                                                     state :=
                                                       Some (setToDefaultValues ext
                                                               (make_RobotState ext model))\<rparr>;
                                               s = s\<lparr>max_torques :=
                                                       fold (push_max_torque urdf_model)
                                                         (getJointModelNames g) (max_torques s)\<rparr>;
                                               gravity_v = (vec_x gravity_vector,
                                                            vec_y gravity_vector,
                                                            vec_z gravity_vector)
                                           in Returns
                                                (s\<lparr>gravity := Norm gravity_v,
                                                   chain_id_solver :=
                                                     Some (make_ChainIdSolver_RNE ext chain
                                                             gravity_v)\<rparr>)))))))"

section \<open>Predicates of the statements\<close>

text \<open>A matrix whose nine entries are finite, as the rotation of a valid isometry is.\<close>

fun is_fin :: "dbl \<Rightarrow> bool" where
  "is_fin (Fin a) = True"
| "is_fin _ = False"

fun finite3 :: "Vector3d \<Rightarrow> bool" where
  "finite3 (a, b, c) = (is_fin a \<and> is_fin b \<and> is_fin c)"

fun finite_mat :: "Matrix3d \<Rightarrow> bool" where
  "finite_mat (r0, r1, r2) = (finite3 r0 \<and> finite3 r1 \<and> finite3 r2)"

section \<open>Example robots\<close>

text \<open>
  A two-joint arm whose tip frame is turned by a quarter turn about the x axis and moved
  away from the base.  Its engine answers a torque of \<open>1 + 2 f\<^sub>y\<close> on the first joint,
  \<open>f\<^sub>y\<close> being the y component of the force on the last segment, and no torque on the
  second joint; it reports an error when the chain has no joint.
\<close>

definition ex_group :: JointModelGroup where
  "ex_group =
     \<lparr>isChain = True, getMimicJointModels = [],
      getJointRoots = [\<lparr>getParentLinkModel = Some ''base''\<rparr>],
      getLinkModelNames = [''l1'', ''l2''], getJointModelNames = [''j1'', ''j2'']\<rparr>"

definition ex_urdf :: ModelInterface where
  "ex_urdf =
     \<lparr>getJoint = (\<lambda>name.
        if name = ''j1'' then Some \<lparr>limits = Some \<lparr>effort = Fin 10\<rparr>\<rparr>
        else if name = ''j2'' then Some \<lparr>limits = Some \<lparr>effort = Fin 5\<rparr>\<rparr>
        else if name = ''j3'' then Some \<lparr>limits = None\<rparr>
        else None)\<rparr>"

definition ex_model :: RobotModel where
  "ex_model =
     \<lparr>getJointModelGroup = (\<lambda>name. if name = ''arm'' then Some ex_group else None),
      getURDF = ex_urdf\<rparr>"

definition ex_chain :: Chain where
  "ex_chain =
     [\<lparr>segment_name = ''l1'', joint_fixed = False\<rparr>,
      \<lparr>segment_name = ''l2'', joint_fixed = False\<rparr>]"

definition ex_engine :: ChainIdSolver_RNE where
  "ex_engine q q_dot q_dotdot f_ext =
     (if q = [] then - 1 else 0,
      \<lambda>i. if i = 0 \<and> f_ext \<noteq> []
           then dadd (Fin 1) (dmul (Fin 2) (fst (snd (fst (last f_ext)))))
           else Fin 0)"

definition ex_tip_frame :: Isometry3d where
  "ex_tip_frame =
     Isometry3d ((Fin 1, Fin 0, Fin 0), (Fin 0, Fin 0, Fin (- 1)), (Fin 0, Fin 1, Fin 0))
       (Fin 1, Fin 2, Fin 3)"

definition ex_base_frame :: Isometry3d where
  "ex_base_frame =
     Isometry3d ((Fin 1, Fin 0, Fin 0), (Fin 0, Fin 1, Fin 0), (Fin 0, Fin 0, Fin 1))
       (Fin 0, Fin 0, Fin 0)"

text \<open>The robot state of the examples is the list of the joint positions last set.\<close>

definition ex_ext :: "dbl list collaborators" where
  "ex_ext =
     \<lparr>treeFromUrdfModel = (\<lambda>u. Some (\<lambda>base tip. (True, ex_chain))),
      make_ChainIdSolver_RNE = (\<lambda>chain g. ex_engine),
      make_RobotState = (\<lambda>m. []),
      setToDefaultValues = (\<lambda>st. [Fin 0, Fin 0]),
      setJointGroupPositions = (\<lambda>st g a. a),
      getFrameTransform = (\<lambda>st name. if name = ''l2'' then ex_tip_frame else ex_base_frame)\<rparr>"

definition ex_solver :: "dbl list dynamics_solver" where
  "ex_solver =
     \<lparr>robot_model = Some ex_model, joint_model_group = Some ex_group,
      state = Some [Fin 0, Fin 0], chain_id_solver = Some ex_engine, kdl_chain = ex_chain,
      base_name = ''base'', tip_name = ''l2'', num_joints = 2, num_segments = 2,
      max_torques = [Fin 10, Fin 5], gravity = Fin (981 / 100)\<rparr>"

text \<open>A turntable: a chain of one joint with a vertical axis, on which neither gravity
  nor a force at the tip has a moment, so that the engine answers no torque.
  \<open>ex_vertical\<close> is the solver the constructor builds for it under the gravity
  \<open>(0, 0, -9.81)\<close>.\<close>

definition ex_vertical_group :: JointModelGroup where
  "ex_vertical_group =
     \<lparr>isChain = True, getMimicJointModels = [],
      getJointRoots = [\<lparr>getParentLinkModel = Some ''base''\<rparr>],
      getLinkModelNames = [''l1''], getJointModelNames = [''j1'']\<rparr>"

definition ex_vertical_model :: RobotModel where
  "ex_vertical_model =
     \<lparr>getJointModelGroup =
        (\<lambda>name. if name = ''turntable'' then Some ex_vertical_group else None),
      getURDF = ex_urdf\<rparr>"

definition ex_vertical_chain :: Chain where
  "ex_vertical_chain = [\<lparr>segment_name = ''l1'', joint_fixed = False\<rparr>]"

definition ex_vertical_engine :: ChainIdSolver_RNE where
  "ex_vertical_engine q q_dot q_dotdot f_ext = (0, \<lambda>i. Fin 0)"

definition ex_vertical_ext :: "dbl list collaborators" where
  "ex_vertical_ext =
     ex_ext\<lparr>treeFromUrdfModel := (\<lambda>u. Some (\<lambda>base tip. (True, ex_vertical_chain))),
            make_ChainIdSolver_RNE := (\<lambda>chain g. ex_vertical_engine),
            setToDefaultValues := (\<lambda>st. [Fin 0])\<rparr>"

definition ex_vertical :: "dbl list dynamics_solver" where
  "ex_vertical =
     \<lparr>robot_model = Some ex_vertical_model, joint_model_group = Some ex_vertical_group,
      state = Some [Fin 0], chain_id_solver = Some ex_vertical_engine,
      kdl_chain = ex_vertical_chain, base_name = ''base'', tip_name = ''l1'',
      num_joints = 1, num_segments = 1, max_torques = [Fin 10], gravity = Fin (981 / 100)\<rparr>"

text \<open>A group whose second joint is fixed: the chain has two segments and one joint
  that moves.\<close>

definition ex_fixed_group :: JointModelGroup where
  "ex_fixed_group =
     \<lparr>isChain = True, getMimicJointModels = [],
      getJointRoots = [\<lparr>getParentLinkModel = Some ''base''\<rparr>],
      getLinkModelNames = [''l1'', ''tool''], getJointModelNames = [''j1'', ''j3'']\<rparr>"

definition ex_fixed_model :: RobotModel where
  "ex_fixed_model =
     \<lparr>getJointModelGroup = (\<lambda>name. if name = ''arm'' then Some ex_fixed_group else None),
      getURDF = ex_urdf\<rparr>"

definition ex_fixed_chain :: Chain where
  "ex_fixed_chain =
     [\<lparr>segment_name = ''l1'', joint_fixed = False\<rparr>,
      \<lparr>segment_name = ''tool'', joint_fixed = True\<rparr>]"

definition ex_fixed_ext :: "dbl list collaborators" where
  "ex_fixed_ext = ex_ext\<lparr>treeFromUrdfModel := (\<lambda>u. Some (\<lambda>base tip. (True, ex_fixed_chain)))\<rparr>"

text \<open>A group that is not a chain.\<close>

definition ex_branched_model :: RobotModel where
  "ex_branched_model =
     \<lparr>getJointModelGroup =
        (\<lambda>name. if name = ''both_arms'' then Some (ex_group\<lparr>isChain := False\<rparr>) else None),
      getURDF = ex_urdf\<rparr>"

text \<open>The two-joint arm with no limit declared for its second joint, the same arm under
  no gravity, and the wrench of its tip under a unit force.\<close>

definition ex_weak :: "dbl list dynamics_solver" where
  "ex_weak = ex_solver\<lparr>max_torques := [Fin 10, Fin 0]\<rparr>"

definition ex_weightless :: "dbl list dynamics_solver" where
  "ex_weightless = ex_solver\<lparr>gravity := Fin 0\<rparr>"

definition ex_unit_wrench :: Wrench where
  "ex_unit_wrench = \<lparr>force = Vector3 (Fin 0) (Fin 1) (Fin 0), torque = Vector3_zero\<rparr>"

section \<open>The loops of \<^verbatim>\<open>getTorques\<close>\<close>

lemma map_nth_upt:
  "length xs = n \<Longrightarrow> map (\<lambda>i. g (xs ! i)) [0..<n] = map g xs"
  by (rule nth_equalityI) simp_all

lemma fold_update_upt:
  "n \<le> length xs \<Longrightarrow> fold (\<lambda>i a. a[i := f i]) [0..<n] xs = map f [0..<n] @ drop n xs"
proof (induction n)
  case 0
  then show ?case by simp
next
  case (Suc n)
  then have n: "n < length xs" by simp
  have "fold (\<lambda>i a. a[i := f i]) [0..<Suc n] xs = (map f [0..<n] @ drop n xs)[n := f n]"
    using Suc by simp
  also have "\<dots> = map f [0..<n] @ (drop n xs)[0 := f n]"
    by (simp add: list_update_append)
  also have "drop n xs = xs ! n # drop (Suc n) xs"
    using n by (simp add: Cons_nth_drop_Suc)
  finally show ?case by simp
qed

lemma fold_update_all:
  "length xs = n \<Longrightarrow> fold (\<lambda>i a. a[i := f i]) [0..<n] xs = map f [0..<n]"
  by (simp add: fold_update_upt)

lemma fold_triple:
  "fold (\<lambda>i (a, b, c). (fa i a, fb i b, fc i c)) is (a0, b0, c0) =
     (fold fa is a0, fold fb is b0, fold fc is c0)"
  by (induction "is" arbitrary: a0 b0 c0) simp_all

lemma fill_jnt_eq:
  assumes "length a = n" "length v = n" "length c = n"
  shows "fill_jnt n a v c = (a, v, c)"
  unfolding fill_jnt_def fold_triple
  using assms by (simp add: fold_update_all map_nth_upt [where g = "\<lambda>x. x", simplified])

lemma fill_wrenches_eq:
  "length w = m \<Longrightarrow> fill_wrenches m w = map to_kdl_wrench w"
  unfolding fill_wrenches_def
  by (simp add: fold_update_all map_nth_upt)

lemma copy_torques_eq:
  "length t = n \<Longrightarrow> copy_torques n k t = map k [0..<n]"
  unfolding copy_torques_def by (simp add: fold_update_all)

text \<open>What \<^verbatim>\<open>getTorques\<close> returns once every check on the solver and the sizes has
  passed: the engine is called once, on the caller's vectors as they are.\<close>

lemma getTorques_checked:
  assumes "joint_model_group s \<noteq> None" "chain_id_solver s = Some CartToJnt"
    and "length a = num_joints s" "length v = num_joints s" "length c = num_joints s"
    and "length w = num_segments s" "length t = num_joints s"
  shows "getTorques s a v c w t =
     Returns (if fst (CartToJnt a v c (map to_kdl_wrench w)) < 0 then Some EngineFailed else None,
              if fst (CartToJnt a v c (map to_kdl_wrench w)) < 0 then t
              else map (snd (CartToJnt a v c (map to_kdl_wrench w))) [0..<num_joints s],
              s, [(a, v, c, map to_kdl_wrench w)])"
  using assms
  by (auto simp add: getTorques_def Let_def fill_jnt_eq fill_wrenches_eq copy_torques_eq
        split: prod.splits)

section \<open>Failures of \<^verbatim>\<open>getTorques\<close>\<close>

text \<open>
  Claim C3.  \<^verbatim>\<open>getTorques\<close> fails exactly when the solver is invalid, or the angles, the
  velocities, the accelerations or the output buffer do not have \<^verbatim>\<open>num_joints_\<close> entries,
  or the wrenches do not have \<^verbatim>\<open>num_segments_\<close> entries, or the engine reports a negative
  status.  The checks are made in this order, the validity of the solver first: the
  failure reported is that of the first check that fails, and the engine is called only
  when all the checks on the solver and the sizes have passed.  On every failure the
  output buffer is returned as the caller passed it.
\<close>

theorem getTorques_failure:
  assumes "joint_model_group s \<noteq> None \<Longrightarrow> chain_id_solver s = Some CartToJnt"
  shows "\<exists>st out calls. getTorques s a v c w t = Returns (st, out, s, calls) \<and>
           ((st \<noteq> None) =
              (joint_model_group s = None \<or> length a \<noteq> num_joints s \<or>
               length v \<noteq> num_joints s \<or> length c \<noteq> num_joints s \<or>
               length w \<noteq> num_segments s \<or> length t \<noteq> num_joints s \<or>
               fst (CartToJnt a v c (map to_kdl_wrench w)) < 0)) \<and>
           (st \<noteq> None \<longrightarrow> out = t) \<and>
           st =
             (if joint_model_group s = None then Some NotConstructed
              else if length a \<noteq> num_joints s then Some AnglesSize
              else if length v \<noteq> num_joints s then Some VelocitiesSize
              else if length c \<noteq> num_joints s then Some AccelerationsSize
              else if length w \<noteq> num_segments s then Some WrenchesSize
              else if length t \<noteq> num_joints s then Some TorquesSize
              else if fst (CartToJnt a v c (map to_kdl_wrench w)) < 0 then Some EngineFailed
              else None) \<and>
           calls =
             (if joint_model_group s = None \<or> length a \<noteq> num_joints s \<or>
                 length v \<noteq> num_joints s \<or> length c \<noteq> num_joints s \<or>
                 length w \<noteq> num_segments s \<or> length t \<noteq> num_joints s
              then [] else [(a, v, c, map to_kdl_wrench w)])"
proof (cases "joint_model_group s = None \<or> length a \<noteq> num_joints s \<or>
               length v \<noteq> num_joints s \<or> length c \<noteq> num_joints s \<or>
               length w \<noteq> num_segments s \<or> length t \<noteq> num_joints s")
  case True
  then show ?thesis by (auto simp add: getTorques_def)
next
  case False
  then have "chain_id_solver s = Some CartToJnt" using assms by simp
  with False show ?thesis
    by (simp add: getTorques_checked)
qed

theorem getTorques_failure_witness:
  "\<exists>st out calls.
      getTorques ex_solver [] [Fin 0, Fin 0] [Fin 0, Fin 0] [Wrench_zero, Wrench_zero]
        [Fin 7, Fin 8] = Returns (st, out, ex_solver, calls) \<and>
      st = Some AnglesSize \<and> out = [Fin 7, Fin 8] \<and> calls = []"
  using getTorques_failure [of ex_solver ex_engine "[]" "[Fin 0, Fin 0]" "[Fin 0, Fin 0]"
      "[Wrench_zero, Wrench_zero]" "[Fin 7, Fin 8]"]
  by (simp add: ex_solver_def)

section \<open>\<^verbatim>\<open>getTorques\<close> and the state of the solver\<close>

text \<open>
  Claim C7.  \<^verbatim>\<open>getTorques\<close> changes no member of the solver, the robot state \<^verbatim>\<open>*state_\<close>
  among them: the solver after the call is the solver before it, and a second call with
  the same arguments returns the same flag and the same torques.
\<close>

theorem getTorques_pure:
  "getTorques s a v c w t = Returns (st, out, s', calls) \<Longrightarrow>
     s' = s \<and> state s' = state s \<and> getTorques s' a v c w t = Returns (st, out, s', calls)"
proof -
  assume r: "getTorques s a v c w t = Returns (st, out, s', calls)"
  have same: "s' = s" \<comment> \<open>every branch that returns hands the solver back as it got it\<close>
    using r
    by (auto simp add: getTorques_def Let_def split: if_splits option.splits prod.splits)
  then have "state s' = state s" by simp
  moreover have "getTorques s' a v c w t = Returns (st, out, s', calls)"
    using r same by simp
  ultimately show ?thesis using same by simp
qed

theorem getTorques_pure_witness:
  "getTorques ex_solver [Fin 0, Fin 0] [Fin 0, Fin 0] [Fin 0, Fin 0] [Wrench_zero, Wrench_zero]
        [Fin 7, Fin 8] = Returns (None, [Fin 1, Fin 0], ex_solver,
          [([Fin 0, Fin 0], [Fin 0, Fin 0], [Fin 0, Fin 0], [kdl_zero, kdl_zero])]) \<and>
   state ex_solver = Some [Fin 0, Fin 0]"
proof -
  have e: "getTorques ex_solver [Fin 0, Fin 0] [Fin 0, Fin 0] [Fin 0, Fin 0]
             [Wrench_zero, Wrench_zero] [Fin 7, Fin 8] =
           Returns (None, [Fin 1, Fin 0], ex_solver,
             [([Fin 0, Fin 0], [Fin 0, Fin 0], [Fin 0, Fin 0], [kdl_zero, kdl_zero])])"
    by (subst getTorques_checked [where CartToJnt = ex_engine])
       (simp_all add: ex_solver_def ex_engine_def to_kdl_wrench_def Wrench_zero_def
          Vector3_zero_def kdl_zero_def upt_rec)
  from getTorques_pure [OF e] e show ?thesis by (simp add: ex_solver_def)
qed

section \<open>The loops of \<^verbatim>\<open>getMaxPayload\<close>\<close>

lemma getTorques_success:
  assumes "getTorques s a v c w t = Returns (None, out, s', calls)"
  shows "s' = s \<and> length out = num_joints s \<and> calls = [(a, v, c, map to_kdl_wrench w)]"
proof -
  from assms have chk: "joint_model_group s \<noteq> None" "length a = num_joints s"
    "length v = num_joints s" "length c = num_joints s" "length w = num_segments s"
    "length t = num_joints s"
    by (auto simp add: getTorques_def split: if_splits)
  with assms obtain f where f: "chain_id_solver s = Some f"
    by (cases "chain_id_solver s") (auto simp add: getTorques_def)
  from assms show ?thesis
    unfolding getTorques_checked [OF chk(1) f chk(2-6)]
    by (auto split: if_splits)
qed

lemma first_saturated_skip:
  assumes "\<forall>x\<in>set xs. x < length mt \<and> x < length zt \<and> \<not> dge (dfabs (zt ! x)) (mt ! x)"
  shows "first_saturated zt mt (xs @ ys) = first_saturated zt mt ys"
  using assms by (induction xs) auto

lemma first_saturated_found:
  assumes "i < n" "i < length mt" "n \<le> length zt"
    and "dge (dfabs (zt ! i)) (mt ! i)"
    and "\<forall>j<i. \<not> dge (dfabs (zt ! j)) (mt ! j)"
  shows "first_saturated zt mt [0..<n] = Returns (Some i)"
proof -
  have "[0..<n] = [0..<i] @ i # [Suc i..<n]"
    using assms(1) by (metis less_imp_le_nat upt_add_eq_append upt_conv_Cons zero_le le_add_diff_inverse)
  moreover have "first_saturated zt mt ([0..<i] @ i # [Suc i..<n]) =
      first_saturated zt mt (i # [Suc i..<n])"
    using assms by (intro first_saturated_skip) auto
  ultimately show ?thesis using assms by simp
qed

lemma first_saturated_none:
  assumes "n \<le> length mt" "n \<le> length zt"
    and "\<forall>j<n. \<not> dge (dfabs (zt ! j)) (mt ! j)"
  shows "first_saturated zt mt [0..<n] = Returns None"
  using first_saturated_skip [of "[0..<n]" mt zt "[]"] assms by auto


lemma dless_trans: "dless a b \<Longrightarrow> dless b c \<Longrightarrow> dless a c"
  by (cases a; cases b; cases c) auto

lemma min_payload_fold:
  assumes "fold (\<lambda>i (m, j). if dless (cap i) m then (cap i, i) else (m, j)) xs (m0, j0) = (m, j)"
  shows "(\<forall>x\<in>set xs. \<not> dless (cap x) m) \<and>
         ((m = m0 \<and> j = j0 \<and> (\<forall>x\<in>set xs. \<not> dless (cap x) m0)) \<or>
          (j \<in> set xs \<and> m = cap j \<and> dless m m0))"
  using assms
proof (induction xs arbitrary: m j rule: rev_induct)
  case Nil
  then show ?case by simp
next
  case (snoc x xs)
  obtain m1 j1 where f: "fold (\<lambda>i (m, j). if dless (cap i) m then (cap i, i) else (m, j)) xs (m0, j0) = (m1, j1)"
    by (cases "fold (\<lambda>i (m, j). if dless (cap i) m then (cap i, i) else (m, j)) xs (m0, j0)")
  note ih = snoc.IH [OF f]
  show ?case
  proof (cases "dless (cap x) m1")
    case True
    with snoc.prems f have mj: "m = cap x" "j = x" by auto
    have "\<forall>y\<in>set xs. \<not> dless (cap y) (cap x)"
      using ih True dless_trans by blast
    moreover have "\<not> dless (cap x) (cap x)" by (cases "cap x") auto
    moreover have "dless (cap x) m0" using ih True dless_trans by blast
    ultimately show ?thesis using mj by auto
  next
    case False
    with snoc.prems f have mj: "m = m1" "j = j1" by auto
    show ?thesis using ih False mj by auto
  qed
qed

lemma min_payload_loop_attained:
  assumes "min_payload_loop mt zt ut n j0 = (m, j)"
    and "i < n" "dless (payload_joint mt zt ut i) DBL_MAX"
  shows "j < n \<and> m = payload_joint mt zt ut j \<and>
         (\<forall>x<n. \<not> dless (payload_joint mt zt ut x) (payload_joint mt zt ut j))"
  using min_payload_fold [OF assms(1) [unfolded min_payload_loop_def]] assms(2,3)
  by auto

text \<open>When no capacity is below \<^verbatim>\<open>DBL_MAX\<close> the loop returns \<^verbatim>\<open>DBL_MAX\<close> and leaves the
  index alone.\<close>

lemma min_payload_loop_capped:
  assumes "min_payload_loop mt zt ut n j0 = (m, j)"
    and "\<forall>i<n. \<not> dless (payload_joint mt zt ut i) DBL_MAX"
  shows "m = DBL_MAX \<and> j = j0"
  using min_payload_fold [OF assms(1) [unfolded min_payload_loop_def]] assms(2)
    dless_trans by auto

lemma tip_force_solver:
  assumes "tip_force ext s a fz w = Returns (w', s')"
  shows "\<exists>st. s' = s\<lparr>state := Some st\<rparr>"
  using assms
  by (auto simp add: tip_force_def Let_def split: option.splits if_splits)

lemma getMaxPayload_converted:
  assumes "joint_model_group s \<noteq> None" "length a = num_joints s"
    and "getTorques s a (replicate (num_joints s) (Fin 0)) (replicate (num_joints s) (Fin 0))
           (replicate (num_segments s) Wrench_zero) (replicate (num_joints s) (Fin 0)) =
         Returns (None, zt, s1, c1)"
    and "num_joints s \<le> length (max_torques s)"
    and "\<forall>i<num_joints s. \<not> dge (dfabs (zt ! i)) (max_torques s ! i)"
    and "tip_force ext s a (Fin 1) (replicate (num_segments s) Wrench_zero) = Returns (w1, s2)"
    and "getTorques s2 a (replicate (num_joints s) (Fin 0)) (replicate (num_joints s) (Fin 0))
           w1 (replicate (num_joints s) (Fin 0)) =
         Returns (None, ut, s3, c2)"
  shows "getMaxPayload ext s a p j0 =
         Returns (None,
           ddiv (fst (min_payload_loop (max_torques s) zt ut (num_joints s) j0)) (gravity s),
           snd (min_payload_loop (max_torques s) zt ut (num_joints s) j0), s2, c1 @ c2)"
proof -
  from getTorques_success [OF assms(3)]
  have s1: "s1 = s" and len: "length zt = num_joints s" by simp_all
  from getTorques_success [OF assms(7)] have s3: "s3 = s2" by simp
  from tip_force_solver [OF assms(6)] obtain st where s2: "s2 = s\<lparr>state := Some st\<rparr>" by blast
  have fs: "first_saturated zt (max_torques s) [0..<num_joints s] = Returns None"
    using assms(4,5) len by (intro first_saturated_none) auto
  have mem: "max_torques s2 = max_torques s" "num_joints s2 = num_joints s"
    "gravity s2 = gravity s"
    by (simp_all add: s2)
  show ?thesis
    using assms(1,2) assms(3) [unfolded s1] fs assms(6) assms(7) [unfolded s3] mem
    by (simp add: getMaxPayload_def Let_def split: prod.splits)
qed

section \<open>The example arm, evaluated\<close>

lemma replicate_2: "replicate 2 x = [x, x]"
  by (simp add: numeral_2_eq_2)

lemma upt_2: "[0..<2] = [0, 1]"
  by (simp add: upt_rec)

lemma ex_engine_zero:
  assumes "joint_model_group s \<noteq> None" "chain_id_solver s = Some ex_engine"
    "num_joints s = 2" "num_segments s = 2"
  shows "getTorques s [Fin 0, Fin 0] [Fin 0, Fin 0] [Fin 0, Fin 0] [Wrench_zero, Wrench_zero]
           [Fin 0, Fin 0] =
         Returns (None, [Fin 1, Fin 0], s,
           [([Fin 0, Fin 0], [Fin 0, Fin 0], [Fin 0, Fin 0], [kdl_zero, kdl_zero])])"
  by (subst getTorques_checked [where CartToJnt = ex_engine])
     (simp_all add: assms ex_engine_def to_kdl_wrench_def Wrench_zero_def
        Vector3_zero_def kdl_zero_def upt_2)

lemma ex_engine_unit:
  assumes "joint_model_group s \<noteq> None" "chain_id_solver s = Some ex_engine"
    "num_joints s = 2" "num_segments s = 2"
  shows "getTorques s [Fin 0, Fin 0] [Fin 0, Fin 0] [Fin 0, Fin 0] [Wrench_zero, ex_unit_wrench]
           [Fin 0, Fin 0] =
         Returns (None, [Fin 3, Fin 0], s,
           [([Fin 0, Fin 0], [Fin 0, Fin 0], [Fin 0, Fin 0],
             [kdl_zero, ((Fin 0, Fin 1, Fin 0), (Fin 0, Fin 0, Fin 0))])])"
  by (subst getTorques_checked [where CartToJnt = ex_engine])
     (simp_all add: assms ex_engine_def to_kdl_wrench_def Wrench_zero_def ex_unit_wrench_def
        Vector3_zero_def kdl_zero_def upt_2)

lemma ex_tip_force:
  assumes "joint_model_group s = Some g" "state s = Some st"
    "base_name s = ''base''" "tip_name s = ''l2''"
  shows "tip_force ex_ext s a (Fin 1) [Wrench_zero, Wrench_zero] =
         Returns ([Wrench_zero, ex_unit_wrench], s\<lparr>state := Some a\<rparr>)"
  by (simp add: tip_force_def assms ex_ext_def Let_def ex_tip_frame_def ex_base_frame_def
        iso_mult_def iso_inverse_def transformVector_def Wrench_zero_def Vector3_zero_def
        ex_unit_wrench_def)

lemma ex_payload_joint_0: "payload_joint [Fin 10, m] [Fin 1, Fin 0] [Fin 3, Fin 0] 0 = Fin (9 / 2)"
  by (simp add: payload_joint_def dmax_def dsub_def)

lemma ex_payload_joint_1: "payload_joint [m, Fin 5] [Fin 1, Fin 0] [Fin 3, Fin 0] 1 = PosInf"
  by (simp add: payload_joint_def dmax_def dsub_def)

lemma DBL_MAX_big: "dless (Fin (9 / 2)) DBL_MAX"
  by (simp add: DBL_MAX_def)

section \<open>A joint saturated by gravity\<close>

text \<open>
  Claim C2.  When the gravity-only torque computation (zero velocities, accelerations and
  wrenches) succeeds and joint \<open>k\<close> has a limit with \<open>|zero_torques[k]| \<ge> max_torques_[k]\<close>,
  \<^verbatim>\<open>getMaxPayload\<close> returns success with payload \<open>0.0\<close> and the index of the first such
  joint; the engine has been called once, for the gravity-only computation, and the solver,
  the robot state with it, is as it was.
\<close>

theorem getMaxPayload_saturated:
  assumes "joint_model_group s \<noteq> None" "length a = num_joints s"
    and "getTorques s a (replicate (num_joints s) (Fin 0)) (replicate (num_joints s) (Fin 0))
           (replicate (num_segments s) Wrench_zero) (replicate (num_joints s) (Fin 0)) =
         Returns (None, zt, s1, calls)"
    and "k < num_joints s" "k < length (max_torques s)"
    and "dge (dfabs (zt ! k)) (max_torques s ! k)"
  shows "\<exists>i\<le>k. dge (dfabs (zt ! i)) (max_torques s ! i) \<and>
           (\<forall>j<i. \<not> dge (dfabs (zt ! j)) (max_torques s ! j)) \<and>
           getMaxPayload ext s a p j0 = Returns (None, Fin 0, i, s, calls) \<and>
           calls = [(a, replicate (num_joints s) (Fin 0), replicate (num_joints s) (Fin 0),
                     replicate (num_segments s) kdl_zero)]"
proof -
  let ?sat = "\<lambda>i. dge (dfabs (zt ! i)) (max_torques s ! i)"
  from getTorques_success [OF assms(3)]
  have s1: "s1 = s" and len: "length zt = num_joints s"
    and calls: "calls = [(a, replicate (num_joints s) (Fin 0), replicate (num_joints s) (Fin 0),
                     map to_kdl_wrench (replicate (num_segments s) Wrench_zero))]"
    by simp_all
  have "\<exists>i. ?sat i" using assms(6) by blast
  then obtain i where i: "?sat i" "\<forall>j<i. \<not> ?sat j"
    using exists_least_iff [of ?sat] by blast
  have ik: "i \<le> k" using i(2) assms(6) by (meson not_le_imp_less)
  have fs: "first_saturated zt (max_torques s) [0..<num_joints s] = Returns (Some i)"
    using ik assms(4,5) len i by (intro first_saturated_found) auto
  have "getMaxPayload ext s a p j0 = Returns (None, Fin 0, i, s, calls)"
    using assms(1,2) assms(3) [unfolded s1] fs
    by (simp add: getMaxPayload_def Let_def)
  moreover have "map to_kdl_wrench (replicate (num_segments s) Wrench_zero) =
      replicate (num_segments s) kdl_zero"
    by (simp add: to_kdl_wrench_def Wrench_zero_def Vector3_zero_def kdl_zero_def)
  ultimately show ?thesis using i ik calls by auto
qed

theorem getMaxPayload_saturated_witness:
  "getMaxPayload ex_ext ex_weak [Fin 0, Fin 0] (Fin 3) 7 =
     Returns (None, Fin 0, 1, ex_weak,
       [([Fin 0, Fin 0], [Fin 0, Fin 0], [Fin 0, Fin 0], [kdl_zero, kdl_zero])])"
proof -
  have v: "joint_model_group ex_weak \<noteq> None" "chain_id_solver ex_weak = Some ex_engine"
    "num_joints ex_weak = 2" "num_segments ex_weak = 2"
    "max_torques ex_weak = [Fin 10, Fin 0]"
    by (simp_all add: ex_weak_def ex_solver_def)
  have "\<exists>i\<le>1. dge (dfabs ([Fin 1, Fin 0] ! i)) (max_torques ex_weak ! i) \<and>
      (\<forall>j<i. \<not> dge (dfabs ([Fin 1, Fin 0] ! j)) (max_torques ex_weak ! j)) \<and>
      getMaxPayload ex_ext ex_weak [Fin 0, Fin 0] (Fin 3) 7 =
        Returns (None, Fin 0, i, ex_weak,
          [([Fin 0, Fin 0], [Fin 0, Fin 0], [Fin 0, Fin 0], [kdl_zero, kdl_zero])]) \<and>
      [([Fin 0, Fin 0], [Fin 0, Fin 0], [Fin 0, Fin 0], [kdl_zero, kdl_zero])] =
        [([Fin 0, Fin 0], replicate (num_joints ex_weak) (Fin 0),
          replicate (num_joints ex_weak) (Fin 0), replicate (num_segments ex_weak) kdl_zero)]"
  proof (rule getMaxPayload_saturated)
    show "joint_model_group ex_weak \<noteq> None" by (rule v)
    show "length [Fin 0, Fin 0] = num_joints ex_weak" by (simp add: v)
    show "getTorques ex_weak [Fin 0, Fin 0] (replicate (num_joints ex_weak) (Fin 0))
        (replicate (num_joints ex_weak) (Fin 0)) (replicate (num_segments ex_weak) Wrench_zero)
        (replicate (num_joints ex_weak) (Fin 0)) =
      Returns (None, [Fin 1, Fin 0], ex_weak,
        [([Fin 0, Fin 0], [Fin 0, Fin 0], [Fin 0, Fin 0], [kdl_zero, kdl_zero])])"
      using ex_engine_zero [OF v(1-4)] by (simp add: v replicate_2)
    show "1 < num_joints ex_weak" by (simp add: v)
    show "1 < length (max_torques ex_weak)" by (simp add: v)
    show "dge (dfabs ([Fin 1, Fin 0] ! 1)) (max_torques ex_weak ! 1)" by (simp add: v)
  qed
  then obtain i where i: "i \<le> 1" "dge (dfabs ([Fin 1, Fin 0] ! i)) ([Fin 10, Fin 0] ! i)"
    "getMaxPayload ex_ext ex_weak [Fin 0, Fin 0] (Fin 3) 7 =
        Returns (None, Fin 0, i, ex_weak,
          [([Fin 0, Fin 0], [Fin 0, Fin 0], [Fin 0, Fin 0], [kdl_zero, kdl_zero])])"
    by (auto simp add: v)
  have "i = 1"
  proof (rule ccontr)
    assume "i \<noteq> 1"
    with i(1) have "i = 0" by simp
    with i(2) show False by simp
  qed
  with i(3) show ?thesis by simp
qed
section \<open>The payload a chain can carry\<close>

text \<open>
  Claim C1, amended.  For a valid solver and angles of length \<^verbatim>\<open>num_joints_\<close>, when no joint
  is saturated by gravity, both torque computations succeed and the capacity of at least
  one joint is below \<^verbatim>\<open>DBL_MAX\<close>, \<^verbatim>\<open>getMaxPayload\<close> returns success, the index \<open>j\<close> of a joint
  than which no joint has a smaller capacity, and the payload
  \<open>payload_joint j / gravity_\<close>, the capacity of joint \<open>i\<close> being the larger of
  \<open>(limit[i] - zero[i]) / (unit[i] - zero[i])\<close> and \<open>(- limit[i] - zero[i]) / (unit[i] - zero[i])\<close>.
  Every joint has a limit, and the unit wrench can be built: the robot state is there and
  the chain has a segment (\<open>tip_force\<close> returns).
\<close>

theorem getMaxPayload_min:
  assumes "joint_model_group s \<noteq> None" "length a = num_joints s"
    and "getTorques s a (replicate (num_joints s) (Fin 0)) (replicate (num_joints s) (Fin 0))
           (replicate (num_segments s) Wrench_zero) (replicate (num_joints s) (Fin 0)) =
         Returns (None, zt, s1, c1)"
    and "num_joints s \<le> length (max_torques s)"
    and "\<forall>i<num_joints s. \<not> dge (dfabs (zt ! i)) (max_torques s ! i)"
    and "tip_force ext s a (Fin 1) (replicate (num_segments s) Wrench_zero) = Returns (w1, s2)"
    and "getTorques s2 a (replicate (num_joints s) (Fin 0)) (replicate (num_joints s) (Fin 0))
           w1 (replicate (num_joints s) (Fin 0)) =
         Returns (None, ut, s3, c2)"
    and "i < num_joints s" "dless (payload_joint (max_torques s) zt ut i) DBL_MAX"
  shows "\<exists>j<num_joints s.
           (\<forall>x<num_joints s. \<not> dless (payload_joint (max_torques s) zt ut x)
                                      (payload_joint (max_torques s) zt ut j)) \<and>
           getMaxPayload ext s a p j0 =
             Returns (None, ddiv (payload_joint (max_torques s) zt ut j) (gravity s), j, s2,
                      c1 @ c2)"
proof -
  obtain m j where mj: "min_payload_loop (max_torques s) zt ut (num_joints s) j0 = (m, j)"
    by (cases "min_payload_loop (max_torques s) zt ut (num_joints s) j0")
  from min_payload_loop_attained [OF mj assms(8,9)]
  have "j < num_joints s" "m = payload_joint (max_torques s) zt ut j"
    "\<forall>x<num_joints s. \<not> dless (payload_joint (max_torques s) zt ut x)
                               (payload_joint (max_torques s) zt ut j)"
    by simp_all
  moreover have "getMaxPayload ext s a p j0 = Returns (None, ddiv m (gravity s), j, s2, c1 @ c2)"
    using getMaxPayload_converted [OF assms(1-7)] mj by simp
  ultimately show ?thesis by blast
qed


theorem getMaxPayload_min_witness:
  "getMaxPayload ex_ext ex_solver [Fin 0, Fin 0] (Fin 0) 7 =
     Returns (None, Fin (450 / 981), 0, ex_solver,
       [([Fin 0, Fin 0], [Fin 0, Fin 0], [Fin 0, Fin 0], [kdl_zero, kdl_zero]),
        ([Fin 0, Fin 0], [Fin 0, Fin 0], [Fin 0, Fin 0],
         [kdl_zero, ((Fin 0, Fin 1, Fin 0), (Fin 0, Fin 0, Fin 0))])])"
proof -
  have v: "joint_model_group ex_solver \<noteq> None" "chain_id_solver ex_solver = Some ex_engine"
    "num_joints ex_solver = 2" "num_segments ex_solver = 2"
    "max_torques ex_solver = [Fin 10, Fin 5]" "gravity ex_solver = Fin (981 / 100)"
    by (simp_all add: ex_solver_def)
  have t: "tip_force ex_ext ex_solver [Fin 0, Fin 0] (Fin 1) [Wrench_zero, Wrench_zero] =
      Returns ([Wrench_zero, ex_unit_wrench], ex_solver)"
    by (subst ex_tip_force [where g = ex_group and st = "[Fin 0, Fin 0]"])
       (simp_all add: ex_solver_def)
  have "\<exists>j<num_joints ex_solver.
      (\<forall>x<num_joints ex_solver.
          \<not> dless (payload_joint (max_torques ex_solver) [Fin 1, Fin 0] [Fin 3, Fin 0] x)
              (payload_joint (max_torques ex_solver) [Fin 1, Fin 0] [Fin 3, Fin 0] j)) \<and>
      getMaxPayload ex_ext ex_solver [Fin 0, Fin 0] (Fin 0) 7 =
        Returns (None,
          ddiv (payload_joint (max_torques ex_solver) [Fin 1, Fin 0] [Fin 3, Fin 0] j)
            (gravity ex_solver), j, ex_solver,
          [([Fin 0, Fin 0], [Fin 0, Fin 0], [Fin 0, Fin 0], [kdl_zero, kdl_zero])] @
          [([Fin 0, Fin 0], [Fin 0, Fin 0], [Fin 0, Fin 0],
            [kdl_zero, ((Fin 0, Fin 1, Fin 0), (Fin 0, Fin 0, Fin 0))])])"
  proof (rule getMaxPayload_min [where i = 0 and ?w1.0 = "[Wrench_zero, ex_unit_wrench]"])
    show "joint_model_group ex_solver \<noteq> None" by (rule v)
    show "length [Fin 0, Fin 0] = num_joints ex_solver" by (simp add: v)
    show "getTorques ex_solver [Fin 0, Fin 0] (replicate (num_joints ex_solver) (Fin 0))
        (replicate (num_joints ex_solver) (Fin 0))
        (replicate (num_segments ex_solver) Wrench_zero)
        (replicate (num_joints ex_solver) (Fin 0)) =
      Returns (None, [Fin 1, Fin 0], ex_solver,
        [([Fin 0, Fin 0], [Fin 0, Fin 0], [Fin 0, Fin 0], [kdl_zero, kdl_zero])])"
      using ex_engine_zero [OF v(1-4)] by (simp add: v replicate_2)
    show "num_joints ex_solver \<le> length (max_torques ex_solver)" by (simp add: v)
    show "\<forall>i<num_joints ex_solver.
        \<not> dge (dfabs ([Fin 1, Fin 0] ! i)) (max_torques ex_solver ! i)"
      by (simp add: v less_Suc_eq numeral_2_eq_2)
    show "tip_force ex_ext ex_solver [Fin 0, Fin 0] (Fin 1)
        (replicate (num_segments ex_solver) Wrench_zero) =
      Returns ([Wrench_zero, ex_unit_wrench], ex_solver)"
      using t by (simp add: v replicate_2)
    show "getTorques ex_solver [Fin 0, Fin 0] (replicate (num_joints ex_solver) (Fin 0))
        (replicate (num_joints ex_solver) (Fin 0)) [Wrench_zero, ex_unit_wrench]
        (replicate (num_joints ex_solver) (Fin 0)) =
      Returns (None, [Fin 3, Fin 0], ex_solver,
        [([Fin 0, Fin 0], [Fin 0, Fin 0], [Fin 0, Fin 0],
          [kdl_zero, ((Fin 0, Fin 1, Fin 0), (Fin 0, Fin 0, Fin 0))])])"
      using ex_engine_unit [OF v(1-4)] by (simp add: v replicate_2)
    show "0 < num_joints ex_solver" by (simp add: v)
    show "dless (payload_joint (max_torques ex_solver) [Fin 1, Fin 0] [Fin 3, Fin 0] 0) DBL_MAX"
      by (simp add: v ex_payload_joint_0 DBL_MAX_big)
  qed
  then obtain j where j: "j < 2"
    "\<not> dless (payload_joint [Fin 10, Fin 5] [Fin 1, Fin 0] [Fin 3, Fin 0] 0)
        (payload_joint [Fin 10, Fin 5] [Fin 1, Fin 0] [Fin 3, Fin 0] j)"
    "getMaxPayload ex_ext ex_solver [Fin 0, Fin 0] (Fin 0) 7 =
        Returns (None,
          ddiv (payload_joint [Fin 10, Fin 5] [Fin 1, Fin 0] [Fin 3, Fin 0] j)
            (Fin (981 / 100)), j, ex_solver,
          [([Fin 0, Fin 0], [Fin 0, Fin 0], [Fin 0, Fin 0], [kdl_zero, kdl_zero]),
           ([Fin 0, Fin 0], [Fin 0, Fin 0], [Fin 0, Fin 0],
            [kdl_zero, ((Fin 0, Fin 1, Fin 0), (Fin 0, Fin 0, Fin 0))])])"
    by (auto simp add: v)
  have "j = 0"
  proof (rule ccontr)
    assume "j \<noteq> 0"
    with j(1) have "j = 1" by simp
    with j(2) show False
      using ex_payload_joint_1 [of "Fin 10"] by (simp add: ex_payload_joint_0)
  qed
  with j(3) show ?thesis by (simp add: ex_payload_joint_0)
qed

lemma Norm_z: "Norm (Fin 0, Fin 0, Fin c) = Fin \<bar>c\<bar>"
  by simp

lemma ex_vertical_constructed:
  "DynamicsSolver ex_vertical_ext uninit ex_vertical_model ''turntable''
     (Vector3 (Fin 0) (Fin 0) (Fin (- (981 / 100)))) = Returns ex_vertical"
  using Norm_z [of "- (981 / 100)"]
  by (cases uninit)
     (simp add: DynamicsSolver_def default_members_def Let_def ex_vertical_ext_def ex_ext_def
        ex_vertical_model_def ex_vertical_group_def ex_vertical_def push_max_torque_def
        ex_urdf_def getNrOfJoints_def getNrOfSegments_def ex_vertical_chain_def
        del: Norm.simps)

lemma ex_vertical_torques:
  "getTorques ex_vertical [Fin 0] [Fin 0] [Fin 0] [w] [Fin 0] =
     Returns (None, [Fin 0], ex_vertical, [([Fin 0], [Fin 0], [Fin 0], [to_kdl_wrench w])])"
  by (subst getTorques_checked [where CartToJnt = ex_vertical_engine])
     (simp_all add: ex_vertical_def ex_vertical_engine_def)

lemma ex_vertical_tip_force:
  "tip_force ex_vertical_ext ex_vertical [Fin 0] (Fin 1) [Wrench_zero] =
     Returns ([\<lparr>force = Vector3 (Fin 0) (Fin 0) (Fin 1), torque = Vector3_zero\<rparr>], ex_vertical)"
  by (simp add: tip_force_def ex_vertical_def ex_vertical_ext_def ex_ext_def Let_def
        ex_base_frame_def
        iso_mult_def iso_inverse_def transformVector_def Wrench_zero_def Vector3_zero_def)

lemma ex_vertical_capacity: "payload_joint [Fin 10] [Fin 0] [Fin 0] 0 = PosInf"
  by (simp add: payload_joint_def dmax_def dsub_def)

lemma ex_vertical_payload:
  "getMaxPayload ex_vertical_ext ex_vertical [Fin 0] p j0 =
     Returns (None, ddiv DBL_MAX (Fin (981 / 100)), j0, ex_vertical,
       [([Fin 0], [Fin 0], [Fin 0], [kdl_zero]),
        ([Fin 0], [Fin 0], [Fin 0], [((Fin 0, Fin 0, Fin 1), (Fin 0, Fin 0, Fin 0))])])"
proof -
  have v: "joint_model_group ex_vertical \<noteq> None" "num_joints ex_vertical = 1"
    "num_segments ex_vertical = 1" "max_torques ex_vertical = [Fin 10]"
    "gravity ex_vertical = Fin (981 / 100)"
    by (simp_all add: ex_vertical_def)
  have l: "min_payload_loop [Fin 10] [Fin 0] [Fin 0] (Suc 0) j0 = (DBL_MAX, j0)"
    by (simp add: min_payload_loop_def ex_vertical_capacity DBL_MAX_def)
  have "getMaxPayload ex_vertical_ext ex_vertical [Fin 0] p j0 =
      Returns (None,
        ddiv (fst (min_payload_loop (max_torques ex_vertical) [Fin 0] [Fin 0]
                    (num_joints ex_vertical) j0)) (gravity ex_vertical),
        snd (min_payload_loop (max_torques ex_vertical) [Fin 0] [Fin 0]
              (num_joints ex_vertical) j0), ex_vertical,
        [([Fin 0], [Fin 0], [Fin 0], [to_kdl_wrench Wrench_zero])] @
        [([Fin 0], [Fin 0], [Fin 0],
          [to_kdl_wrench \<lparr>force = Vector3 (Fin 0) (Fin 0) (Fin 1), torque = Vector3_zero\<rparr>])])"
    by (rule getMaxPayload_converted [where ?s1.0 = ex_vertical and ?s3.0 = ex_vertical
          and ?w1.0 = "[\<lparr>force = Vector3 (Fin 0) (Fin 0) (Fin 1), torque = Vector3_zero\<rparr>]"])
       (simp_all add: v ex_vertical_torques ex_vertical_tip_force)
  then show ?thesis
    by (simp add: v l to_kdl_wrench_def Wrench_zero_def Vector3_zero_def kdl_zero_def)
qed

text \<open>
  Claim C1 as it is stated fails on a chain of one joint with a vertical axis: the engine
  answers no torque with or without the unit force, the capacity of the joint is
  \<open>10 / 0 = +\<infinity>\<close>, which is not below \<^verbatim>\<open>DBL_MAX\<close>, and \<^verbatim>\<open>getMaxPayload\<close> returns
  \<open>DBL_MAX / gravity_\<close> and leaves the index as the caller passed it.
\<close>

theorem getMaxPayload_min_counterexample:
  "DynamicsSolver ex_vertical_ext (0, 0, NaN) ex_vertical_model ''turntable''
       (Vector3 (Fin 0) (Fin 0) (Fin (- (981 / 100)))) = Returns ex_vertical \<and>
   getTorques ex_vertical [Fin 0] [Fin 0] [Fin 0] [Wrench_zero] [Fin 0] =
     Returns (None, [Fin 0], ex_vertical, [([Fin 0], [Fin 0], [Fin 0], [kdl_zero])]) \<and>
   \<not> dge (dfabs ([Fin 0] ! 0)) (max_torques ex_vertical ! 0) \<and>
   tip_force ex_vertical_ext ex_vertical [Fin 0] (Fin 1) [Wrench_zero] =
     Returns ([\<lparr>force = Vector3 (Fin 0) (Fin 0) (Fin 1), torque = Vector3_zero\<rparr>], ex_vertical) \<and>
   getTorques ex_vertical [Fin 0] [Fin 0] [Fin 0]
       [\<lparr>force = Vector3 (Fin 0) (Fin 0) (Fin 1), torque = Vector3_zero\<rparr>] [Fin 0] =
     Returns (None, [Fin 0], ex_vertical,
       [([Fin 0], [Fin 0], [Fin 0], [((Fin 0, Fin 0, Fin 1), (Fin 0, Fin 0, Fin 0))])]) \<and>
   payload_joint (max_torques ex_vertical) [Fin 0] [Fin 0] 0 = PosInf \<and>
   ddiv PosInf (gravity ex_vertical) = PosInf \<and>
   getMaxPayload ex_vertical_ext ex_vertical [Fin 0] (Fin 0) 5 =
     Returns (None, Fin ((2 ^ 1024 - 2 ^ 971) / (981 / 100)), 5, ex_vertical,
       [([Fin 0], [Fin 0], [Fin 0], [kdl_zero]),
        ([Fin 0], [Fin 0], [Fin 0], [((Fin 0, Fin 0, Fin 1), (Fin 0, Fin 0, Fin 0))])]) \<and>
   \<not> (\<exists>j<num_joints ex_vertical. \<exists>p j0 s' calls.
        getMaxPayload ex_vertical_ext ex_vertical [Fin 0] p j0 =
          Returns (None,
            ddiv (payload_joint (max_torques ex_vertical) [Fin 0] [Fin 0] j)
              (gravity ex_vertical), j, s', calls))"
proof -
  have v: "num_joints ex_vertical = 1" "max_torques ex_vertical = [Fin 10]"
    "gravity ex_vertical = Fin (981 / 100)"
    by (simp_all add: ex_vertical_def)
  have d: "ddiv DBL_MAX (Fin (981 / 100)) = Fin ((2 ^ 1024 - 2 ^ 971) / (981 / 100))"
    unfolding DBL_MAX_def by (simp del: power_numeral)
  have n: "\<not> (\<exists>j<num_joints ex_vertical. \<exists>p j0 s' calls.
        getMaxPayload ex_vertical_ext ex_vertical [Fin 0] p j0 =
          Returns (None,
            ddiv (payload_joint (max_torques ex_vertical) [Fin 0] [Fin 0] j)
              (gravity ex_vertical), j, s', calls))"
  proof
    assume "\<exists>j<num_joints ex_vertical. \<exists>p j0 s' calls.
        getMaxPayload ex_vertical_ext ex_vertical [Fin 0] p j0 =
          Returns (None,
            ddiv (payload_joint (max_torques ex_vertical) [Fin 0] [Fin 0] j)
              (gravity ex_vertical), j, s', calls)"
    then obtain p j0 s' calls where
      "getMaxPayload ex_vertical_ext ex_vertical [Fin 0] p j0 =
          Returns (None, ddiv (payload_joint [Fin 10] [Fin 0] [Fin 0] 0) (Fin (981 / 100)),
            0, s', calls)"
      by (auto simp add: v)
    then show False
      by (simp add: ex_vertical_payload ex_vertical_capacity d)
  qed
  have k: "to_kdl_wrench Wrench_zero = kdl_zero"
    "to_kdl_wrench \<lparr>force = Vector3 (Fin 0) (Fin 0) (Fin 1), torque = Vector3_zero\<rparr> =
       ((Fin 0, Fin 0, Fin 1), (Fin 0, Fin 0, Fin 0))"
    by (simp_all add: to_kdl_wrench_def Wrench_zero_def Vector3_zero_def kdl_zero_def)
  show ?thesis
    using n
    by (simp add: ex_vertical_constructed ex_vertical_torques ex_vertical_tip_force
          ex_vertical_payload d v ex_vertical_capacity k)
qed

section \<open>What the constructor establishes\<close>

lemma DynamicsSolver_valid:
  assumes "DynamicsSolver ext uninit model group_name gv = Returns s"
    and "joint_model_group s \<noteq> None"
  shows "\<exists>g ok_tree. getJointModelGroup model group_name = Some g \<and> joint_model_group s = Some g \<and>
           isChain g \<and> getMimicJointModels g = [] \<and>
           state s = Some (setToDefaultValues ext (make_RobotState ext model)) \<and>
           chain_id_solver s =
             Some (make_ChainIdSolver_RNE ext (kdl_chain s) (vec_x gv, vec_y gv, vec_z gv)) \<and>
           treeFromUrdfModel ext (getURDF model) = Some ok_tree \<and>
           ok_tree (base_name s) (tip_name s) = (True, kdl_chain s) \<and>
           num_joints s = getNrOfJoints (kdl_chain s) \<and>
           num_segments s = getNrOfSegments (kdl_chain s) \<and>
           max_torques s = fold (push_max_torque (getURDF model)) (getJointModelNames g) [] \<and>
           gravity s = Norm (vec_x gv, vec_y gv, vec_z gv)"
  using assms
  by (auto simp add: DynamicsSolver_def default_members_def Let_def
        split: option.splits list.splits if_splits prod.splits)

lemma ddiv_zero: "ddiv m (Fin 0) = PosInf \<or> ddiv m (Fin 0) = NegInf \<or> ddiv m (Fin 0) = NaN"
  by (cases m) auto


lemma ex_solver_constructed:
  "DynamicsSolver ex_ext uninit ex_model ''arm''
     (Vector3 (Fin 0) (Fin 0) (Fin (- (981 / 100)))) = Returns ex_solver"
  using Norm_z [of "- (981 / 100)"]
  by (cases uninit)
     (simp add: DynamicsSolver_def default_members_def Let_def ex_ext_def ex_model_def
        ex_group_def ex_solver_def push_max_torque_def ex_urdf_def
        getNrOfJoints_def getNrOfSegments_def ex_chain_def del: Norm.simps)

lemma ex_construct:
  "DynamicsSolver ex_ext uninit ex_model ''arm'' (Vector3 (Fin 0) (Fin 0) (Fin 0)) =
     Returns ex_weightless"
  by (cases uninit)
     (simp add: DynamicsSolver_def default_members_def Let_def ex_ext_def ex_model_def
        ex_group_def ex_weightless_def ex_solver_def push_max_torque_def ex_urdf_def
        getNrOfJoints_def getNrOfSegments_def ex_chain_def)


section \<open>A solver under no gravity\<close>

text \<open>
  Claim C10.  The division of the capacity by \<^verbatim>\<open>gravity_\<close> is not guarded.  A solver
  constructed with the gravity vector \<open>(0, 0, 0)\<close> has \<^verbatim>\<open>gravity_ = 0\<close>, whatever robot state
  it holds by now; a call of \<^verbatim>\<open>getMaxPayload\<close> on it that reaches the conversion (no joint
  saturated by gravity, both torque computations successful) returns success, and the
  payload it returns is the quotient of the capacity by zero: an infinity or a NaN.
\<close>

theorem getMaxPayload_zero_gravity:
  assumes "DynamicsSolver ext uninit model group_name (Vector3 (Fin 0) (Fin 0) (Fin 0)) =
             Returns s0"
    and "s = s0\<lparr>state := st\<rparr>"
    and "joint_model_group s \<noteq> None" "length a = num_joints s"
    and "getTorques s a (replicate (num_joints s) (Fin 0)) (replicate (num_joints s) (Fin 0))
           (replicate (num_segments s) Wrench_zero) (replicate (num_joints s) (Fin 0)) =
         Returns (None, zt, s1, c1)"
    and "num_joints s \<le> length (max_torques s)"
    and "\<forall>i<num_joints s. \<not> dge (dfabs (zt ! i)) (max_torques s ! i)"
    and "tip_force ext s a (Fin 1) (replicate (num_segments s) Wrench_zero) = Returns (w1, s2)"
    and "getTorques s2 a (replicate (num_joints s) (Fin 0)) (replicate (num_joints s) (Fin 0))
           w1 (replicate (num_joints s) (Fin 0)) =
         Returns (None, ut, s3, c2)"
  shows "gravity s = Fin 0 \<and>
         (\<exists>q. getMaxPayload ext s a p j0 =
                Returns (None, q,
                  snd (min_payload_loop (max_torques s) zt ut (num_joints s) j0), s2, c1 @ c2) \<and>
              q = ddiv (fst (min_payload_loop (max_torques s) zt ut (num_joints s) j0)) (Fin 0) \<and>
              (q = PosInf \<or> q = NegInf \<or> q = NaN))"
proof -
  have "joint_model_group s0 \<noteq> None" using assms(2,3) by simp
  from DynamicsSolver_valid [OF assms(1) this]
  have "gravity s0 = Norm (Fin 0, Fin 0, Fin 0)" by auto
  then have g: "gravity s = Fin 0" using assms(2) by simp
  show ?thesis
    using getMaxPayload_converted [OF assms(3-9), of p j0] g
      ddiv_zero [of "fst (min_payload_loop (max_torques s) zt ut (num_joints s) j0)"]
    by simp
qed


theorem getMaxPayload_zero_gravity_witness:
  "gravity ex_weightless = Fin 0 \<and>
   getMaxPayload ex_ext ex_weightless [Fin 0, Fin 0] (Fin 0) 7 =
     Returns (None, PosInf, 0, ex_weightless,
       [([Fin 0, Fin 0], [Fin 0, Fin 0], [Fin 0, Fin 0], [kdl_zero, kdl_zero]),
        ([Fin 0, Fin 0], [Fin 0, Fin 0], [Fin 0, Fin 0],
         [kdl_zero, ((Fin 0, Fin 1, Fin 0), (Fin 0, Fin 0, Fin 0))])])"
proof -
  have v: "joint_model_group ex_weightless \<noteq> None"
    "chain_id_solver ex_weightless = Some ex_engine"
    "num_joints ex_weightless = 2" "num_segments ex_weightless = 2"
    "max_torques ex_weightless = [Fin 10, Fin 5]"
    by (simp_all add: ex_weightless_def ex_solver_def)
  have t: "tip_force ex_ext ex_weightless [Fin 0, Fin 0] (Fin 1) [Wrench_zero, Wrench_zero] =
      Returns ([Wrench_zero, ex_unit_wrench], ex_weightless)"
    by (subst ex_tip_force [where g = ex_group and st = "[Fin 0, Fin 0]"])
       (simp_all add: ex_weightless_def ex_solver_def)
  have l: "min_payload_loop [Fin 10, Fin 5] [Fin 1, Fin 0] [Fin 3, Fin 0] 2 7 = (Fin (9 / 2), 0)"
    using ex_payload_joint_1 [of "Fin 10"]
    by (simp add: min_payload_loop_def upt_2 ex_payload_joint_0 DBL_MAX_big)
  have "gravity ex_weightless = Fin 0 \<and>
      (\<exists>q. getMaxPayload ex_ext ex_weightless [Fin 0, Fin 0] (Fin 0) 7 =
          Returns (None, q,
            snd (min_payload_loop (max_torques ex_weightless) [Fin 1, Fin 0] [Fin 3, Fin 0]
                  (num_joints ex_weightless) 7), ex_weightless,
            [([Fin 0, Fin 0], [Fin 0, Fin 0], [Fin 0, Fin 0], [kdl_zero, kdl_zero])] @
            [([Fin 0, Fin 0], [Fin 0, Fin 0], [Fin 0, Fin 0],
              [kdl_zero, ((Fin 0, Fin 1, Fin 0), (Fin 0, Fin 0, Fin 0))])]) \<and>
         q = ddiv (fst (min_payload_loop (max_torques ex_weightless) [Fin 1, Fin 0] [Fin 3, Fin 0]
                         (num_joints ex_weightless) 7)) (Fin 0) \<and>
         (q = PosInf \<or> q = NegInf \<or> q = NaN))"
  proof (rule getMaxPayload_zero_gravity [where ?w1.0 = "[Wrench_zero, ex_unit_wrench]"
        and ?s1.0 = ex_weightless and ?s3.0 = ex_weightless and ?s0.0 = ex_weightless
        and st = "Some [Fin 0, Fin 0]" and ext = ex_ext and uninit = "(0, 0, NaN)"
        and model = ex_model and group_name = "''arm''"])
    show "DynamicsSolver ex_ext (0, 0, NaN) ex_model ''arm'' (Vector3 (Fin 0) (Fin 0) (Fin 0)) =
        Returns ex_weightless"
      by (rule ex_construct)
    show "ex_weightless = ex_weightless\<lparr>state := Some [Fin 0, Fin 0]\<rparr>"
      by (simp add: ex_weightless_def ex_solver_def)
    show "joint_model_group ex_weightless \<noteq> None" by (rule v)
    show "length [Fin 0, Fin 0] = num_joints ex_weightless" by (simp add: v)
    show "getTorques ex_weightless [Fin 0, Fin 0] (replicate (num_joints ex_weightless) (Fin 0))
        (replicate (num_joints ex_weightless) (Fin 0))
        (replicate (num_segments ex_weightless) Wrench_zero)
        (replicate (num_joints ex_weightless) (Fin 0)) =
      Returns (None, [Fin 1, Fin 0], ex_weightless,
        [([Fin 0, Fin 0], [Fin 0, Fin 0], [Fin 0, Fin 0], [kdl_zero, kdl_zero])])"
      using ex_engine_zero [OF v(1-4)] by (simp add: v replicate_2)
    show "num_joints ex_weightless \<le> length (max_torques ex_weightless)" by (simp add: v)
    show "\<forall>i<num_joints ex_weightless.
        \<not> dge (dfabs ([Fin 1, Fin 0] ! i)) (max_torques ex_weightless ! i)"
      by (simp add: v less_Suc_eq numeral_2_eq_2)
    show "tip_force ex_ext ex_weightless [Fin 0, Fin 0] (Fin 1)
        (replicate (num_segments ex_weightless) Wrench_zero) =
      Returns ([Wrench_zero, ex_unit_wrench], ex_weightless)"
      using t by (simp add: v replicate_2)
    show "getTorques ex_weightless [Fin 0, Fin 0] (replicate (num_joints ex_weightless) (Fin 0))
        (replicate (num_joints ex_weightless) (Fin 0)) [Wrench_zero, ex_unit_wrench]
        (replicate (num_joints ex_weightless) (Fin 0)) =
      Returns (None, [Fin 3, Fin 0], ex_weightless,
        [([Fin 0, Fin 0], [Fin 0, Fin 0], [Fin 0, Fin 0],
          [kdl_zero, ((Fin 0, Fin 1, Fin 0), (Fin 0, Fin 0, Fin 0))])])"
      using ex_engine_unit [OF v(1-4)] by (simp add: v replicate_2)
  qed
  then show ?thesis
    by (auto simp add: v l)
qed

section \<open>The torques under a payload\<close>

lemma is_fin_dadd: "is_fin a \<Longrightarrow> is_fin b \<Longrightarrow> is_fin (dadd a b)"
  by (cases a; cases b) auto

lemma is_fin_dmul: "is_fin a \<Longrightarrow> is_fin b \<Longrightarrow> is_fin (dmul a b)"
  by (cases a; cases b) auto

lemma dmul_zero: "is_fin a \<Longrightarrow> dmul a (Fin 0) = Fin 0"
  by (cases a) auto

lemma dot3_finite: "finite3 r \<Longrightarrow> finite3 q \<Longrightarrow> is_fin (dot3 r q)"
  by (cases r; cases q) (simp add: is_fin_dadd is_fin_dmul)

lemma dot3_zero: "finite3 r \<Longrightarrow> dot3 r (Fin 0, Fin 0, Fin 0) = Fin 0"
  by (cases r) (simp add: dmul_zero)

lemma mat_vec_zero: "finite_mat m \<Longrightarrow> mat_vec m (Fin 0, Fin 0, Fin 0) = (Fin 0, Fin 0, Fin 0)"
proof -
  assume m: "finite_mat m"
  obtain r0 r1 r2 where "m = (r0, r1, r2)" by (cases m)
  with m show ?thesis by (simp add: dot3_zero)
qed

lemma butlast_replicate: "butlast (replicate m x) = replicate (m - 1) x"
  by (induction m) (simp_all add: butlast_append replicate_append_same [symmetric])

lemma finite_transpose3: "finite_mat m \<Longrightarrow> finite_mat (transpose3 m)"
  by (cases m rule: transpose3.cases) simp

lemma finite_mat_mat: "finite_mat m \<Longrightarrow> finite_mat n \<Longrightarrow> finite_mat (mat_mat m n)"
proof -
  assume m: "finite_mat m" and n: "finite_mat n"
  obtain r0 r1 r2 where mr: "m = (r0, r1, r2)" by (cases m)
  obtain c0 c1 c2 where nc: "transpose3 n = (c0, c1, c2)" by (cases "transpose3 n")
  from finite_transpose3 [OF n] nc have "finite3 c0" "finite3 c1" "finite3 c2" by simp_all
  moreover from m mr have "finite3 r0" "finite3 r1" "finite3 r2" by simp_all
  ultimately show ?thesis
    by (simp add: mr nc dot3_finite)
qed

lemma linear3d_transform:
  "linear3d (iso_mult (iso_inverse tip_frame) base_frame) =
     mat_mat (transpose3 (linear3d tip_frame)) (linear3d base_frame)"
  by (simp add: iso_mult_def iso_inverse_def)

lemma transformVector_zero:
  "finite_mat (linear3d tr) \<Longrightarrow> transformVector tr Vector3_zero = Vector3_zero"
  by (simp add: transformVector_def Vector3_zero_def mat_vec_zero)

lemma tip_force_value:
  assumes "joint_model_group s = Some g" "state s = Some st" "0 < m"
    and "st' = setJointGroupPositions ext st g a"
    and "tr = iso_mult (iso_inverse (getFrameTransform ext st' (tip_name s)))
                (getFrameTransform ext st' (base_name s))"
  shows "tip_force ext s a fz (replicate m Wrench_zero) =
     Returns (replicate (m - 1) Wrench_zero @
                [\<lparr>force = transformVector tr (Vector3 (Fin 0) (Fin 0) fz),
                  torque = transformVector tr Vector3_zero\<rparr>],
              s\<lparr>state := Some st'\<rparr>)"
  using assms
  by (simp add: tip_force_def Let_def butlast_replicate Wrench_zero_def Vector3_zero_def)


text \<open>
  Claim C4.  For a valid solver, angles and an output buffer of length \<^verbatim>\<open>num_joints_\<close> and
  a payload, \<^verbatim>\<open>getPayloadTorques\<close> is one call of \<^verbatim>\<open>getTorques\<close>, hence one call of the
  engine, with zero velocities and accelerations and wrenches that are zero on every
  segment but the last.  The force on the last segment is \<open>(0, 0, payload * gravity_)\<close>
  multiplied by the rotation of \<^verbatim>\<open>tip_frame.inverse() * base_frame\<close>, which is the
  transposed rotation of the tip frame times the rotation of the base frame, whatever the
  translations are; its torque is zero.  The chain has a segment and the two frames are
  valid isometries, as the robot state promises.
\<close>

theorem getPayloadTorques_single_call:
  assumes "joint_model_group s = Some g" "state s = Some st"
    and "chain_id_solver s = Some CartToJnt"
    and "length a = num_joints s" "length t = num_joints s" "0 < num_segments s"
    and "st' = setJointGroupPositions ext st g a"
    and "tip_frame = getFrameTransform ext st' (tip_name s)"
    and "base_frame = getFrameTransform ext st' (base_name s)"
    and "finite_mat (linear3d tip_frame)" "finite_mat (linear3d base_frame)"
    and "rot = linear3d (iso_mult (iso_inverse tip_frame) base_frame)"
    and "tip_wrench =
           \<lparr>force = (case mat_vec rot (Fin 0, Fin 0, dmul payload (gravity s)) of
                       (fx, fy, fz) \<Rightarrow> Vector3 fx fy fz),
            torque = Vector3_zero\<rparr>"
    and "wrenches = replicate (num_segments s - 1) Wrench_zero @ [tip_wrench]"
    and "zeros = replicate (num_joints s) (Fin 0)"
  shows "rot = mat_mat (transpose3 (linear3d tip_frame)) (linear3d base_frame) \<and>
         getPayloadTorques ext s a payload t =
           getTorques (s\<lparr>state := Some st'\<rparr>) a zeros zeros wrenches t \<and>
         (\<exists>st out. getPayloadTorques ext s a payload t =
            Returns (st, out, s\<lparr>state := Some st'\<rparr>,
                     [(a, zeros, zeros, map to_kdl_wrench wrenches)]))"
proof -
  let ?tr = "iso_mult (iso_inverse tip_frame) base_frame"
  have rot: "rot = mat_mat (transpose3 (linear3d tip_frame)) (linear3d base_frame)"
    using assms(12) by (simp add: linear3d_transform)
  have fin: "finite_mat (linear3d ?tr)"
    using assms(10,11) by (simp add: linear3d_transform finite_mat_mat finite_transpose3)
  have tf: "tip_force ext s a (dmul payload (gravity s)) (replicate (num_segments s) Wrench_zero) =
      Returns (wrenches, s\<lparr>state := Some st'\<rparr>)"
    using tip_force_value [OF assms(1,2,6,7), of ?tr "dmul payload (gravity s)"]
      transformVector_zero [OF fin] assms(8,9,12,13,14)
    by (simp add: transformVector_def)
  have eq: "getPayloadTorques ext s a payload t =
      getTorques (s\<lparr>state := Some st'\<rparr>) a zeros zeros wrenches t"
    using assms(1,4,5,15) tf by (simp add: getPayloadTorques_def Let_def)
  have len: "length wrenches = num_segments s" using assms(6,14) by simp
  have "getTorques (s\<lparr>state := Some st'\<rparr>) a zeros zeros wrenches t =
      Returns (if fst (CartToJnt a zeros zeros (map to_kdl_wrench wrenches)) < 0
               then Some EngineFailed else None,
               if fst (CartToJnt a zeros zeros (map to_kdl_wrench wrenches)) < 0 then t
               else map (snd (CartToJnt a zeros zeros (map to_kdl_wrench wrenches)))
                      [0..<num_joints (s\<lparr>state := Some st'\<rparr>)],
               s\<lparr>state := Some st'\<rparr>, [(a, zeros, zeros, map to_kdl_wrench wrenches)])"
    by (rule getTorques_checked) (simp_all add: assms(1,3,4,5,15) len)
  with eq rot show ?thesis by simp
qed

theorem getPayloadTorques_single_call_witness:
  "getPayloadTorques ex_ext ex_solver [Fin 0, Fin 0] (Fin 2) [Fin 7, Fin 8] =
     Returns (None, [Fin (1006 / 25), Fin 0], ex_solver,
       [([Fin 0, Fin 0], [Fin 0, Fin 0], [Fin 0, Fin 0],
         [kdl_zero, ((Fin 0, Fin (981 / 50), Fin 0), (Fin 0, Fin 0, Fin 0))])])"
proof -
  have v: "joint_model_group ex_solver = Some ex_group" "state ex_solver = Some [Fin 0, Fin 0]"
    "chain_id_solver ex_solver = Some ex_engine"
    "num_joints ex_solver = 2" "num_segments ex_solver = 2"
    "gravity ex_solver = Fin (981 / 100)" "tip_name ex_solver = ''l2''"
    "base_name ex_solver = ''base''"
    by (simp_all add: ex_solver_def)
  have fr: "\<And>st'. getFrameTransform ex_ext st' ''l2'' = ex_tip_frame"
    "\<And>st'. getFrameTransform ex_ext st' ''base'' = ex_base_frame"
    "setJointGroupPositions ex_ext [Fin 0, Fin 0] ex_group [Fin 0, Fin 0] = [Fin 0, Fin 0]"
    by (simp_all add: ex_ext_def)
  have st: "ex_solver\<lparr>state := Some [Fin 0, Fin 0]\<rparr> = ex_solver"
    by (simp add: ex_solver_def)
  have w: "replicate (num_segments ex_solver - 1) Wrench_zero @
      [\<lparr>force = (case mat_vec (linear3d (iso_mult (iso_inverse ex_tip_frame) ex_base_frame))
                       (Fin 0, Fin 0, dmul (Fin 2) (gravity ex_solver)) of
                  (fx, fy, fz) \<Rightarrow> Vector3 fx fy fz),
        torque = Vector3_zero\<rparr>] =
      [Wrench_zero, \<lparr>force = Vector3 (Fin 0) (Fin (981 / 50)) (Fin 0), torque = Vector3_zero\<rparr>]"
    by (simp add: v ex_tip_frame_def ex_base_frame_def iso_mult_def iso_inverse_def)
  have "getPayloadTorques ex_ext ex_solver [Fin 0, Fin 0] (Fin 2) [Fin 7, Fin 8] =
      getTorques ex_solver [Fin 0, Fin 0] [Fin 0, Fin 0] [Fin 0, Fin 0]
        [Wrench_zero, \<lparr>force = Vector3 (Fin 0) (Fin (981 / 50)) (Fin 0), torque = Vector3_zero\<rparr>]
        [Fin 7, Fin 8]"
    using getPayloadTorques_single_call [where s = ex_solver and g = ex_group
        and st = "[Fin 0, Fin 0]" and CartToJnt = ex_engine and a = "[Fin 0, Fin 0]"
        and t = "[Fin 7, Fin 8]" and ext = ex_ext and payload = "Fin 2",
        OF v(1) v(2) v(3) _ _ _ refl refl refl _ _ refl refl refl refl]
    by (simp add: v fr st w [unfolded v, simplified] replicate_2 ex_tip_frame_def
          ex_base_frame_def iso_mult_def iso_inverse_def)
  also have "\<dots> = Returns (None, [Fin (1006 / 25), Fin 0], ex_solver,
       [([Fin 0, Fin 0], [Fin 0, Fin 0], [Fin 0, Fin 0],
         [kdl_zero, ((Fin 0, Fin (981 / 50), Fin 0), (Fin 0, Fin 0, Fin 0))])])"
    by (subst getTorques_checked [where CartToJnt = ex_engine])
       (simp_all add: v ex_engine_def to_kdl_wrench_def Wrench_zero_def
          Vector3_zero_def kdl_zero_def upt_2)
  finally show ?thesis .
qed


section \<open>Invalid solvers and failed preconditions\<close>

lemma invalid_queries:
  assumes "joint_model_group s = None"
  shows "getTorques s a v c w t = Returns (Some NotConstructed, t, s, [])"
    and "getMaxPayload ext s a p j0 = Returns (Some NotConstructed, p, j0, s, [])"
    and "getPayloadTorques ext s a p t = Returns (Some NotConstructed, t, s, [])"
  using assms by (simp_all add: getTorques_def getMaxPayload_def getPayloadTorques_def)

lemma getTorques_TorquesSize:
  "getTorques s a v c w t = Returns (Some TorquesSize, out, s', calls) \<Longrightarrow>
     length t \<noteq> num_joints s"
  by (auto simp add: getTorques_def Let_def split: if_splits option.splits prod.splits)

lemma getMaxPayload_no_TorquesSize:
  "getMaxPayload ext s a p j0 \<noteq> Returns (Some TorquesSize, q, j, s', calls)"
proof
  assume r: "getMaxPayload ext s a p j0 = Returns (Some TorquesSize, q, j, s', calls)"
  let ?z = "replicate (num_joints s) (Fin 0)"
  let ?w = "replicate (num_segments s) Wrench_zero"
  from r have chk: "joint_model_group s \<noteq> None" "length a = num_joints s"
    by (auto simp add: getMaxPayload_def split: if_splits)
  show False
  proof (cases "getTorques s a ?z ?z ?w ?z")
    case Undefined
    with r chk show False by (simp add: getMaxPayload_def Let_def)
  next
    case (Returns x)
    obtain e zt s1 c1 where x: "x = (e, zt, s1, c1)" by (cases x)
    show False
    proof (cases e)
      case (Some f)
      with r chk Returns x have "f = TorquesSize"
        by (simp add: getMaxPayload_def Let_def)
      with Returns x Some getTorques_TorquesSize [of s a ?z ?z ?w ?z zt s1 c1]
      show False by simp
    next
      case None
      from getTorques_success [of s a ?z ?z ?w ?z zt s1 c1] Returns x None
      have s1: "s1 = s" by simp
      show False
      proof (cases "first_saturated zt (max_torques s) [0..<num_joints s]")
        case Undefined
        with r chk Returns x None s1 show False by (simp add: getMaxPayload_def Let_def)
      next
        case fs: (Returns y)
        show False
        proof (cases y)
          case (Some i)
          with r chk Returns x None s1 fs show False by (simp add: getMaxPayload_def Let_def)
        next
          case nosat: None
          show False
          proof (cases "tip_force ext s a (Fin 1) ?w")
            case Undefined
            with r chk Returns x None s1 fs nosat show False
              by (simp add: getMaxPayload_def Let_def)
          next
            case tf: (Returns z)
            obtain w1 s2 where z: "z = (w1, s2)" by (cases z)
            from tip_force_solver [of ext s a "Fin 1" ?w w1 s2] tf z
            have n2: "num_joints s2 = num_joints s" by auto
            show False
            proof (cases "getTorques s2 a ?z ?z w1 ?z")
              case Undefined
              with r chk Returns x None s1 fs nosat tf z show False
                by (simp add: getMaxPayload_def Let_def)
            next
              case g2: (Returns x2)
              obtain e2 ut s3 c2 where x2: "x2 = (e2, ut, s3, c2)" by (cases x2)
              show False
              proof (cases e2)
                case (Some f)
                with r chk Returns x None s1 fs nosat tf z g2 x2 have "f = TorquesSize"
                  by (simp add: getMaxPayload_def Let_def)
                with g2 x2 Some getTorques_TorquesSize [of s2 a ?z ?z w1 ?z ut s3 c2] n2
                show False by simp
              next
                case ok: None
                with r chk Returns x None s1 fs nosat tf z g2 x2 show False
                  by (simp add: getMaxPayload_def Let_def split: prod.splits)
              qed
            qed
          qed
        qed
      qed
    qed
  qed
qed


text \<open>
  Claim C9.  \<^verbatim>\<open>getPayloadTorques\<close> checks that the caller's torques vector has
  \<^verbatim>\<open>num_joints_\<close> entries, a failure \<^verbatim>\<open>getMaxPayload\<close> never reports.  When the solver is
  invalid, the angles have the wrong length or the torques vector has, it returns failure
  with the solver, and so the robot state, as it was, the output buffer unwritten and no
  call to the engine.
\<close>

theorem getPayloadTorques_preconditions:
  "(joint_model_group s = None \<longrightarrow>
      getPayloadTorques ext s a p t = Returns (Some NotConstructed, t, s, [])) \<and>
   (joint_model_group s \<noteq> None \<and> length a \<noteq> num_joints s \<longrightarrow>
      getPayloadTorques ext s a p t = Returns (Some AnglesSize, t, s, [])) \<and>
   (joint_model_group s \<noteq> None \<and> length a = num_joints s \<and> length t \<noteq> num_joints s \<longrightarrow>
      getPayloadTorques ext s a p t = Returns (Some TorquesSize, t, s, [])) \<and>
   getMaxPayload ext s a p j0 \<noteq> Returns (Some TorquesSize, q, j, s', calls)"
  using getMaxPayload_no_TorquesSize [of ext s a p j0 q j s' calls]
  by (simp add: getPayloadTorques_def)


theorem getPayloadTorques_preconditions_witness:
  "joint_model_group ex_solver \<noteq> None \<and> length [Fin 0, Fin 0] = num_joints ex_solver \<and>
   length [Fin 7] \<noteq> num_joints ex_solver \<and>
   getPayloadTorques ex_ext ex_solver [Fin 0, Fin 0] (Fin 2) [Fin 7] =
     Returns (Some TorquesSize, [Fin 7], ex_solver, [])"
  using getPayloadTorques_preconditions [of ex_solver ex_ext "[Fin 0, Fin 0]" "Fin 2" "[Fin 7]"]
  by (simp add: ex_solver_def)

lemma default_members_fields:
  "joint_model_group (default_members uninit :: 'st dynamics_solver) = None"
  "max_torques (default_members uninit :: 'st dynamics_solver) = []"
  by (cases uninit; simp add: default_members_def)+


text \<open>
  Claim C5.  When the group is not a chain, has a mimic joint, has a root joint without
  a parent link, or the tree or the chain cannot be built, the constructor returns a
  solver without a group.  On it \<^verbatim>\<open>getTorques\<close>, \<^verbatim>\<open>getMaxPayload\<close> and \<^verbatim>\<open>getPayloadTorques\<close>
  fail at their first check, whatever the lengths of the vectors, without a call to the
  engine and leaving the solver as it is, so that every later call fails as well;
  \<^verbatim>\<open>getMaxTorques\<close> returns the empty vector.
\<close>

theorem invalid_solver_fails:
  assumes "getJointModelGroup model group_name = Some g"
    and "\<not> isChain g \<or> getMimicJointModels g \<noteq> [] \<or>
         (\<exists>joint rest. getJointRoots g = joint # rest \<and> getParentLinkModel joint = None) \<or>
         (\<exists>joint rest parent. getJointRoots g = joint # rest \<and>
            getParentLinkModel joint = Some parent \<and> getLinkModelNames g \<noteq> [] \<and>
            (treeFromUrdfModel ext (getURDF model) = None \<or>
             (\<exists>tree. treeFromUrdfModel ext (getURDF model) = Some tree \<and>
                \<not> fst (tree parent (last (getLinkModelNames g))))))"
  shows "\<exists>s. DynamicsSolver ext uninit model group_name gv = Returns s \<and>
           joint_model_group s = None \<and> getMaxTorques s = [] \<and>
           (\<forall>a v c w t p j0.
              getTorques s a v c w t = Returns (Some NotConstructed, t, s, []) \<and>
              getMaxPayload ext s a p j0 = Returns (Some NotConstructed, p, j0, s, []) \<and>
              getPayloadTorques ext s a p t = Returns (Some NotConstructed, t, s, []))"
proof -
  have "\<exists>s. DynamicsSolver ext uninit model group_name gv = Returns s \<and>
           joint_model_group s = None \<and> getMaxTorques s = []"
    using assms
    by (auto simp add: DynamicsSolver_def Let_def getMaxTorques_def default_members_fields
          split: option.splits list.splits prod.splits)
  then show ?thesis
    using invalid_queries by blast
qed


theorem invalid_solver_fails_witness:
  "\<exists>s. DynamicsSolver ex_ext (0, 0, NaN) ex_branched_model ''both_arms''
          (Vector3 (Fin 0) (Fin 0) (Fin (- (981 / 100)))) = Returns s \<and>
        getMaxTorques s = [] \<and>
        getTorques s [] [] [] [] [] = Returns (Some NotConstructed, [], s, []) \<and>
        getMaxPayload ex_ext s [Fin 0, Fin 0] (Fin 0) 7 =
          Returns (Some NotConstructed, Fin 0, 7, s, []) \<and>
        getPayloadTorques ex_ext s [Fin 0, Fin 0] (Fin 2) [Fin 7, Fin 8] =
          Returns (Some NotConstructed, [Fin 7, Fin 8], s, [])"
proof -
  have g: "getJointModelGroup ex_branched_model ''both_arms'' = Some (ex_group\<lparr>isChain := False\<rparr>)"
    by (simp add: ex_branched_model_def)
  from invalid_solver_fails [OF g, of ex_ext "(0, 0, NaN)"
      "Vector3 (Fin 0) (Fin 0) (Fin (- (981 / 100)))"]
  show ?thesis by (simp add: ex_group_def) blast
qed


text \<open>
  Claim C8.  When the robot model has no group of the given name, the constructor returns
  a solver without a group: the three queries fail at their first check and
  \<^verbatim>\<open>getMaxTorques\<close> returns the empty vector.
\<close>

theorem unknown_group_invalid:
  assumes "getJointModelGroup model group_name = None"
  shows "\<exists>s. DynamicsSolver ext uninit model group_name gv = Returns s \<and>
           joint_model_group s = None \<and> getMaxTorques s = [] \<and>
           (\<forall>a v c w t p j0.
              getTorques s a v c w t = Returns (Some NotConstructed, t, s, []) \<and>
              getMaxPayload ext s a p j0 = Returns (Some NotConstructed, p, j0, s, []) \<and>
              getPayloadTorques ext s a p t = Returns (Some NotConstructed, t, s, []))"
proof -
  have "\<exists>s. DynamicsSolver ext uninit model group_name gv = Returns s \<and>
           joint_model_group s = None \<and> getMaxTorques s = []"
    using assms
    by (simp add: DynamicsSolver_def Let_def getMaxTorques_def default_members_fields)
  then show ?thesis
    using invalid_queries by blast
qed


theorem unknown_group_invalid_witness:
  "\<exists>s. DynamicsSolver ex_ext (0, 0, NaN) ex_model ''leg''
          (Vector3 (Fin 0) (Fin 0) (Fin (- (981 / 100)))) = Returns s \<and>
        getMaxTorques s = [] \<and>
        getTorques s [] [] [] [] [] = Returns (Some NotConstructed, [], s, []) \<and>
        getMaxPayload ex_ext s [Fin 0, Fin 0] (Fin 0) 7 =
          Returns (Some NotConstructed, Fin 0, 7, s, []) \<and>
        getPayloadTorques ex_ext s [Fin 0, Fin 0] (Fin 2) [Fin 7, Fin 8] =
          Returns (Some NotConstructed, [Fin 7, Fin 8], s, [])"
proof -
  have g: "getJointModelGroup ex_model ''leg'' = None"
    by (simp add: ex_model_def)
  from unknown_group_invalid [OF g, of ex_ext "(0, 0, NaN)"
      "Vector3 (Fin 0) (Fin 0) (Fin (- (981 / 100)))"]
  show ?thesis by blast
qed


section \<open>The torque limits\<close>

text \<open>What a successful construction leaves in \<^verbatim>\<open>max_torques_\<close>: one entry for each
  joint name of the group, in the order of \<^verbatim>\<open>getJointModelNames\<close>, equal to the effort limit
  the URDF declares for the joint, or to zero when it declares none or does not know the
  joint; \<^verbatim>\<open>num_joints_\<close> is the number of joints of the KDL chain that are not fixed.\<close>

lemma fold_push_max_torque:
  "fold (push_max_torque urdf_model) names mt =
     mt @ map (\<lambda>name. case getJoint urdf_model name of
                         None \<Rightarrow> Fin 0
                       | Some ujoint \<Rightarrow> (case limits ujoint of None \<Rightarrow> Fin 0
                                          | Some l \<Rightarrow> effort l)) names"
  by (induction names arbitrary: mt)
     (simp_all add: push_max_torque_def split: option.splits)

lemma max_torques_constructed:
  assumes "DynamicsSolver ext uninit model group_name gv = Returns s"
    and "joint_model_group s = Some g"
  shows "max_torques s =
     map (\<lambda>name. case getJoint (getURDF model) name of
                    None \<Rightarrow> Fin 0
                  | Some ujoint \<Rightarrow> (case limits ujoint of None \<Rightarrow> Fin 0
                                     | Some l \<Rightarrow> effort l)) (getJointModelNames g)"
    and "length (max_torques s) = length (getJointModelNames g)"
    and "num_joints s = getNrOfJoints (kdl_chain s)"
proof -
  from DynamicsSolver_valid [OF assms(1)] assms(2)
  have "max_torques s = fold (push_max_torque (getURDF model)) (getJointModelNames g) []"
    and n: "num_joints s = getNrOfJoints (kdl_chain s)"
    by auto
  then show "max_torques s =
     map (\<lambda>name. case getJoint (getURDF model) name of
                    None \<Rightarrow> Fin 0
                  | Some ujoint \<Rightarrow> (case limits ujoint of None \<Rightarrow> Fin 0
                                     | Some l \<Rightarrow> effort l)) (getJointModelNames g)"
    by (simp add: fold_push_max_torque)
  then show "length (max_torques s) = length (getJointModelNames g)" by simp
  show "num_joints s = getNrOfJoints (kdl_chain s)" by (rule n)
qed


text \<open>
  Claim C6.  After a successful construction \<^verbatim>\<open>max_torques_\<close> should have one entry for
  each joint of the chain that moves, \<^verbatim>\<open>num_joints_\<close> entries in all.  On a group whose
  second joint is fixed the constructor stores two limits, the second for the fixed joint,
  while \<^verbatim>\<open>num_joints_\<close> is one.
\<close>

theorem max_torques_fixed_joint:
  "\<exists>s. DynamicsSolver ex_fixed_ext (0, 0, NaN) ex_fixed_model ''arm''
          (Vector3 (Fin 0) (Fin 0) (Fin (- (981 / 100)))) = Returns s \<and>
        joint_model_group s = Some ex_fixed_group \<and>
        kdl_chain s = ex_fixed_chain \<and> num_segments s = 2 \<and> num_joints s = 1 \<and>
        getMaxTorques s = [Fin 10, Fin 0] \<and>
        length (getMaxTorques s) \<noteq> num_joints s"
  using Norm_z [of "- (981 / 100)"]
  by (simp add: DynamicsSolver_def default_members_def Let_def ex_fixed_ext_def ex_ext_def
        ex_fixed_model_def ex_fixed_group_def push_max_torque_def ex_urdf_def
        getNrOfJoints_def getNrOfSegments_def ex_fixed_chain_def getMaxTorques_def
        del: Norm.simps)

end
